theory Spec2Isabelle
  imports Complex_Main "HOL-Library.AList"
begin

section \<open>Health dataset analyzer: data model\<close>

text \<open>
  The analyzer (\<^verbatim>\<open>src/dataset_analyzer.py\<close>, class \<^verbatim>\<open>HealthDatasetAnalyzer\<close>) keeps one
  pandas table \<^verbatim>\<open>self.df\<close> and runs six reporters over it. A numeric cell is the
  finite number that \<^verbatim>\<open>pd.read_csv\<close> parsed, as a real; missing cells (NaN) and infinite
  cells are not modelled. Where a claim depends on the rounding of float64 arithmetic,
  the fences of the outlier analysis, every operation is rounded by a parameter \<open>rnd\<close>
  and may overflow to an infinity; the two divisions of the derived ratios return a
  \<open>pyfloat\<close> as well, since a zero divisor does not raise. A reporter that raises is a
  function into \<open>error + 'a\<close>; a reporter that also assigns columns of \<^verbatim>\<open>self.df\<close>
  returns the table it leaves behind, also when it raises.
\<close>

datatype error =
    KeyError | TypeError | ValueError | AttributeError | ZeroDivisionError | JSONDecodeError

definition bind_err :: "error + 'a \<Rightarrow> ('a \<Rightarrow> error + 'b) \<Rightarrow> error + 'b" where
  "bind_err m f = (case m of Inl e \<Rightarrow> Inl e | Inr x \<Rightarrow> f x)"

text \<open>A value decoded by \<^verbatim>\<open>json.loads\<close>.\<close>

datatype json =
    JNull | JBool bool | JNum real | JStr string | JArr "json list" | JObj "(string \<times> json) list"

text \<open>Result of a float division in numpy: dividing by zero does not raise.\<close>

datatype pyfloat = Finite real | PosInf | NegInf | NaN

text \<open>
  float64 arithmetic on these values. The exact result of an operation on two finite
  numbers is rounded by \<open>rnd\<close>, the rounding of IEEE 754 binary64 (to the nearest float,
  or to an infinity on overflow); an infinity or a NaN operand follows the IEEE rules.
  A comparison with NaN is false.
\<close>

fun f_neg :: "pyfloat \<Rightarrow> pyfloat" where
  "f_neg (Finite a) = Finite (- a)"
| "f_neg PosInf = NegInf"
| "f_neg NegInf = PosInf"
| "f_neg NaN = NaN"

fun f_add :: "(real \<Rightarrow> pyfloat) \<Rightarrow> pyfloat \<Rightarrow> pyfloat \<Rightarrow> pyfloat" where
  "f_add rnd (Finite a) (Finite b) = rnd (a + b)"
| "f_add rnd NaN y = NaN"
| "f_add rnd x NaN = NaN"
| "f_add rnd PosInf NegInf = NaN"
| "f_add rnd NegInf PosInf = NaN"
| "f_add rnd PosInf y = PosInf"
| "f_add rnd NegInf y = NegInf"
| "f_add rnd x PosInf = PosInf"
| "f_add rnd x NegInf = NegInf"

definition f_sub :: "(real \<Rightarrow> pyfloat) \<Rightarrow> pyfloat \<Rightarrow> pyfloat \<Rightarrow> pyfloat" where
  "f_sub rnd x y = f_add rnd x (f_neg y)"

fun f_sign :: "pyfloat \<Rightarrow> int" where
  "f_sign (Finite a) = (if a > 0 then 1 else if a < 0 then - 1 else 0)"
| "f_sign PosInf = 1"
| "f_sign NegInf = - 1"
| "f_sign NaN = 0"

fun f_mul :: "(real \<Rightarrow> pyfloat) \<Rightarrow> pyfloat \<Rightarrow> pyfloat \<Rightarrow> pyfloat" where
  "f_mul rnd (Finite a) (Finite b) = rnd (a * b)"
| "f_mul rnd NaN y = NaN"
| "f_mul rnd x NaN = NaN"
| "f_mul rnd x y =
     (if f_sign x * f_sign y = 0 then NaN else if f_sign x * f_sign y > 0 then PosInf else NegInf)"

fun f_less :: "pyfloat \<Rightarrow> pyfloat \<Rightarrow> bool" where
  "f_less (Finite a) (Finite b) = (a < b)"
| "f_less NaN y = False"
| "f_less x NaN = False"
| "f_less NegInf y = (y \<noteq> NegInf)"
| "f_less x PosInf = (x \<noteq> PosInf)"
| "f_less x y = False"

text \<open>The fields of a parsed timestamp that the temporal reporter reads through \<^verbatim>\<open>.dt\<close>.\<close>

record datetime =
  dt_hour :: nat
  dt_day_name :: string
  dt_month :: nat

text \<open>
  A column with its dtype: numeric, string (object), decoded JSON objects, datetimes and
  a categorical (\<open>None\<close> is a missing category, pandas' NaN).
\<close>

datatype column =
    NumCol "real list"
  | StrCol "string list"
  | ObjCol "json list"
  | TimeCol "datetime list"
  | CatCol "string option list"

definition col_len :: "column \<Rightarrow> nat" where
  "col_len col =
     (case col of NumCol xs \<Rightarrow> length xs | StrCol xs \<Rightarrow> length xs | ObjCol xs \<Rightarrow> length xs
      | TimeCol xs \<Rightarrow> length xs | CatCol xs \<Rightarrow> length xs)"

text \<open>A DataFrame: the length of its index and its columns by name, in column order.\<close>

record dataframe =
  df_index :: nat
  df_data :: "(string \<times> column) list"

definition len_df :: "dataframe \<Rightarrow> nat" where
  "len_df d = df_index d"

definition getitem :: "dataframe \<Rightarrow> string \<Rightarrow> error + column" where
  "getitem d c = (case map_of (df_data d) c of None \<Rightarrow> Inl KeyError | Some col \<Rightarrow> Inr col)"

text \<open>\<^verbatim>\<open>df[c] = col\<close>: replaces the column named \<open>c\<close> or appends a new one.\<close>

definition setitem :: "dataframe \<Rightarrow> string \<Rightarrow> column \<Rightarrow> dataframe" where
  "setitem d c col = d\<lparr>df_data := AList.update c col (df_data d)\<rparr>"

text \<open>
  The numbers of a column for cell-wise arithmetic and comparison. A column of another
  dtype has none, unless it has no cell at all: then every cell-wise operation yields the
  empty result.
\<close>

definition numeric_cells :: "column \<Rightarrow> real list option" where
  "numeric_cells col =
     (case col of NumCol xs \<Rightarrow> Some xs | _ \<Rightarrow> if col_len col = 0 then Some [] else None)"

definition as_numeric :: "column \<Rightarrow> error + real list" where
  "as_numeric col = (case numeric_cells col of Some xs \<Rightarrow> Inr xs | None \<Rightarrow> Inl TypeError)"

definition get_numeric :: "dataframe \<Rightarrow> string \<Rightarrow> error + real list" where
  "get_numeric d c = bind_err (getitem d c) as_numeric"

text \<open>
  Python's \<^verbatim>\<open>count / len(self.df) * 100\<close> on Python integers: a zero divisor raises.
  The counts that reach it are Python integers: \<^verbatim>\<open>Series.items()\<close> yields them, and so does
  the default of \<^verbatim>\<open>get('none', 0)\<close>.
\<close>

definition py_percent :: "int \<Rightarrow> nat \<Rightarrow> error + real" where
  "py_percent count n =
     (if n = 0 then Inl ZeroDivisionError else Inr (real_of_int count / real n * 100))"

section \<open>Loader\<close>

text \<open>
  \<^verbatim>\<open>_parse_symptoms\<close>: \<^verbatim>\<open>json.loads\<close> inside a bare \<^verbatim>\<open>try/except\<close> that returns \<^verbatim>\<open>[]\<close>.
  The decoder is the standard library's; it is a parameter \<open>loads\<close> whose \<open>Inl\<close> results
  are the inputs on which it raises.
\<close>

definition parse_symptoms :: "(string \<Rightarrow> error + json) \<Rightarrow> string \<Rightarrow> json" where
  "parse_symptoms loads symptoms_str =
     (case loads symptoms_str of Inr v \<Rightarrow> v | Inl e \<Rightarrow> JArr [])"

text \<open>Python's \<^verbatim>\<open>len\<close> on a decoded value: numbers, booleans and null have no length.\<close>

fun py_len :: "json \<Rightarrow> error + nat" where
  "py_len (JArr xs) = Inr (length xs)"
| "py_len (JStr s) = Inr (length s)"
| "py_len (JObj kvs) = Inr (length kvs)"
| "py_len _ = Inl TypeError"

definition symptom_count :: "(string \<Rightarrow> error + json) \<Rightarrow> string \<Rightarrow> error + nat" where
  "symptom_count loads symptoms_str = py_len (parse_symptoms loads symptoms_str)"

text \<open>\<^verbatim>\<open>Series.apply(f)\<close> for an \<open>f\<close> that may raise: the first exception propagates.\<close>

fun apply_err :: "('a \<Rightarrow> error + 'b) \<Rightarrow> 'a list \<Rightarrow> error + 'b list" where
  "apply_err f [] = Inr []"
| "apply_err f (x # xs) =
     bind_err (f x) (\<lambda>y. bind_err (apply_err f xs) (\<lambda>ys. Inr (y # ys)))"

text \<open>
  \<^verbatim>\<open>self.df['symptoms'].apply(self._parse_symptoms)\<close>: on a column of strings each cell
  is decoded; a cell of any other dtype makes \<^verbatim>\<open>json.loads\<close> raise TypeError, which the
  bare \<^verbatim>\<open>except\<close> turns into \<^verbatim>\<open>[]\<close> as well.
\<close>

definition symptoms_parsed :: "(string \<Rightarrow> error + json) \<Rightarrow> column \<Rightarrow> json list" where
  "symptoms_parsed loads col =
     (case col of StrCol xs \<Rightarrow> map (parse_symptoms loads) xs
      | _ \<Rightarrow> replicate (col_len col) (JArr []))"

text \<open>
  \<^verbatim>\<open>load_dataset\<close> after \<^verbatim>\<open>pd.read_csv\<close> has produced the table \<open>d\<close>: three derived
  columns are added. \<^verbatim>\<open>pd.to_datetime\<close> on a column is the parameter \<open>to_datetime\<close>.
  Any exception is printed and re-raised, so the constructor yields no analyzer.
\<close>

definition load_dataset ::
  "(string \<Rightarrow> error + json) \<Rightarrow> (column \<Rightarrow> error + datetime list) \<Rightarrow> dataframe
     \<Rightarrow> error + dataframe" where
  "load_dataset loads to_datetime d =
     bind_err (getitem d ''symptoms'') (\<lambda>c.
     let parsed = symptoms_parsed loads c;
         d1 = setitem d ''symptoms_parsed'' (ObjCol parsed)
     in bind_err (apply_err py_len parsed) (\<lambda>counts.
     let d2 = setitem d1 ''symptom_count'' (NumCol (map real counts))
     in bind_err (getitem d2 ''timestamp'') (\<lambda>t.
     bind_err (to_datetime t) (\<lambda>ts.
     let d3 = setitem d2 ''timestamp_parsed'' (TimeCol ts)
     in bind_err (getitem d3 ''userId'') (\<lambda>u. Inr d3)))))"

section \<open>Demographics reporter: age buckets\<close>

definition age_bins :: "real list" where
  "age_bins = [0, 25, 35, 45, 55, 65, 100]"

definition age_labels :: "string list" where
  "age_labels = [''16-25'', ''26-35'', ''36-45'', ''46-55'', ''56-65'', ''65+'']"

text \<open>\<^verbatim>\<open>bins.searchsorted(x, side='right')\<close> on increasing bins: the number of edges \<open>\<le> x\<close>.\<close>

definition searchsorted_right :: "real list \<Rightarrow> real \<Rightarrow> nat" where
  "searchsorted_right a v = length (takeWhile (\<lambda>b. b \<le> v) a)"

text \<open>
  \<^verbatim>\<open>pd.cut(x, bins, labels, right=False)\<close> for one value: the position among the edges
  selects the label; a value below the first edge or not below the last one is missing.
\<close>

definition cut_right_open :: "real list \<Rightarrow> string list \<Rightarrow> real \<Rightarrow> string option" where
  "cut_right_open bins labels x =
     (let ids = searchsorted_right bins x
      in if ids = length bins \<or> ids = 0 then None else Some (labels ! (ids - 1)))"

definition age_group_of :: "real \<Rightarrow> string option" where
  "age_group_of a = cut_right_open age_bins age_labels a"

section \<open>Clustering recommendations: range of k, outliers\<close>

text \<open>Python's \<^verbatim>\<open>int()\<close> of a float truncates towards zero.\<close>

definition py_int :: "real \<Rightarrow> int" where
  "py_int x = (if 0 \<le> x then \<lfloor>x\<rfloor> else \<lceil>x\<rceil>)"

definition k_min :: "nat \<Rightarrow> int" where
  "k_min n_samples = max 2 (py_int (sqrt (real n_samples / 2)))"

definition k_max :: "nat \<Rightarrow> int" where
  "k_max n_samples = min 10 (py_int (sqrt (real n_samples)))"

text \<open>
  \<^verbatim>\<open>Series.quantile(q)\<close> with pandas' default linear interpolation between the two
  closest ranks of the sorted column; an empty column has no quantile (NaN).
\<close>

definition quantile :: "real \<Rightarrow> real list \<Rightarrow> real option" where
  "quantile q col =
     (if col = [] then None
      else let s = sort col;
               pos = q * real (length s - 1);
               lo = nat \<lfloor>pos\<rfloor>;
               hi = min (lo + 1) (length s - 1);
               frac = pos - real lo
           in Some (s ! lo + (s ! hi - s ! lo) * frac))"

text \<open>
  \<^verbatim>\<open>IQR = Q3 - Q1\<close> and the two fences \<^verbatim>\<open>(Q1 - 1.5 * IQR)\<close> and
  \<^verbatim>\<open>(Q3 + 1.5 * IQR)\<close>; each arithmetic operation is one float64 operation.
\<close>

definition iqr :: "(real \<Rightarrow> pyfloat) \<Rightarrow> real \<Rightarrow> real \<Rightarrow> pyfloat" where
  "iqr rnd Q1 Q3 = f_sub rnd (Finite Q3) (Finite Q1)"

definition lower_fence :: "(real \<Rightarrow> pyfloat) \<Rightarrow> real \<Rightarrow> real \<Rightarrow> pyfloat" where
  "lower_fence rnd Q1 Q3 = f_sub rnd (Finite Q1) (f_mul rnd (Finite (3/2)) (iqr rnd Q1 Q3))"

definition upper_fence :: "(real \<Rightarrow> pyfloat) \<Rightarrow> real \<Rightarrow> real \<Rightarrow> pyfloat" where
  "upper_fence rnd Q1 Q3 = f_add rnd (Finite Q3) (f_mul rnd (Finite (3/2)) (iqr rnd Q1 Q3))"

text \<open>
  The boolean column \<^verbatim>\<open>(col < (Q1 - 1.5 * IQR)) | (col > (Q3 + 1.5 * IQR))\<close> and its
  \<^verbatim>\<open>.sum()\<close>. A comparison with a NaN quantile is false.
\<close>

definition outlier_mask :: "(real \<Rightarrow> pyfloat) \<Rightarrow> real list \<Rightarrow> bool list" where
  "outlier_mask rnd col =
     (case (quantile (1/4) col, quantile (3/4) col) of
        (Some Q1, Some Q3) \<Rightarrow>
          map (\<lambda>v. f_less (Finite v) (lower_fence rnd Q1 Q3) \<or>
                   f_less (upper_fence rnd Q1 Q3) (Finite v)) col
      | _ \<Rightarrow> map (\<lambda>v. False) col)"

definition outliers :: "(real \<Rightarrow> pyfloat) \<Rightarrow> real list \<Rightarrow> nat" where
  "outliers rnd col = length (filter (\<lambda>b. b) (outlier_mask rnd col))"

section \<open>Column statistics used by the reporters\<close>

text \<open>Mean, sample standard deviation, minimum and maximum; NaN (\<open>None\<close>) where pandas gives NaN.\<close>

definition mean :: "real list \<Rightarrow> real option" where
  "mean xs = (if xs = [] then None else Some (sum_list xs / real (length xs)))"

definition std :: "real list \<Rightarrow> real option" where
  "std xs =
     (if length xs < 2 then None
      else let m = sum_list xs / real (length xs)
           in Some (sqrt (sum_list (map (\<lambda>x. (x - m)\<^sup>2) xs) / real (length xs - 1))))"

definition min_col :: "real list \<Rightarrow> real option" where
  "min_col xs = (case xs of [] \<Rightarrow> None | x # ys \<Rightarrow> Some (fold min ys x))"

definition max_col :: "real list \<Rightarrow> real option" where
  "max_col xs = (case xs of [] \<Rightarrow> None | x # ys \<Rightarrow> Some (fold max ys x))"

text \<open>
  \<^verbatim>\<open>value_counts()\<close> and \<^verbatim>\<open>Counter.most_common()\<close>: every distinct value with its number
  of occurrences, the most frequent first. \<^verbatim>\<open>Counter\<close> keeps ties in order of first
  appearance; pandas leaves their order open, and the same order is taken here.
\<close>

definition value_counts :: "'a list \<Rightarrow> ('a \<times> nat) list" where
  "value_counts xs =
     sort_key (\<lambda>kc. - int (snd kc)) (map (\<lambda>k. (k, count_list xs k)) (rev (remdups (rev xs))))"

section \<open>Statistics reporter\<close>

record basic_report =
  numeric_summary :: "(string \<times> real option \<times> real option \<times> real option \<times> real option) list"
  avg_symptoms :: "real option"
  max_symptoms :: "real option"
  no_symptoms :: nat
  most_common :: "(json \<times> nat) list"

text \<open>\<^verbatim>\<open>stats = self.df[col].describe()\<close>; a column that is not numeric has no \<^verbatim>\<open>'mean'\<close>.\<close>

definition describe ::
  "column \<Rightarrow> error + (real option \<times> real option \<times> real option \<times> real option)" where
  "describe col =
     (case col of NumCol xs \<Rightarrow> Inr (mean xs, std xs, min_col xs, max_col xs)
      | _ \<Rightarrow> Inl KeyError)"

fun describe_cols ::
  "dataframe \<Rightarrow> string list
     \<Rightarrow> error + (string \<times> real option \<times> real option \<times> real option \<times> real option) list" where
  "describe_cols d [] = Inr []"
| "describe_cols d (col # cols) =
     (case map_of (df_data d) col of
        None \<Rightarrow> describe_cols d cols
      | Some c \<Rightarrow>
          bind_err (describe c) (\<lambda>st.
          bind_err (describe_cols d cols) (\<lambda>rest. Inr ((col, st) # rest))))"

text \<open>\<^verbatim>\<open>all_symptoms.extend(symptoms_list)\<close> iterates the decoded value.\<close>

fun py_iter :: "json \<Rightarrow> error + json list" where
  "py_iter (JArr xs) = Inr xs"
| "py_iter (JStr s) = Inr (map (\<lambda>c. JStr [c]) s)"
| "py_iter (JObj kvs) = Inr (map (\<lambda>kv. JStr (fst kv)) kvs)"
| "py_iter _ = Inl TypeError"

definition all_symptoms :: "column \<Rightarrow> error + json list" where
  "all_symptoms col =
     (case col of
        ObjCol js \<Rightarrow> bind_err (apply_err py_iter js) (\<lambda>xss. Inr (concat xss))
      | StrCol ss \<Rightarrow> Inr (concat (map (map (\<lambda>c. JStr [c])) ss))
      | _ \<Rightarrow> if col_len col = 0 then Inr [] else Inl TypeError)"

fun hashable :: "json \<Rightarrow> bool" where
  "hashable (JArr xs) = False"
| "hashable (JObj kvs) = False"
| "hashable _ = True"

definition analyze_basic_statistics :: "dataframe \<Rightarrow> error + basic_report" where
  "analyze_basic_statistics d =
     bind_err (describe_cols d [''severity'', ''sleep'', ''stress'', ''exercise'', ''age'']) (\<lambda>summary.
     bind_err (get_numeric d ''symptom_count'') (\<lambda>counts.
     bind_err (getitem d ''symptoms_parsed'') (\<lambda>parsed.
     bind_err (all_symptoms parsed) (\<lambda>tokens.
       if list_all hashable tokens
       then Inr \<lparr>numeric_summary = summary, avg_symptoms = mean counts,
                 max_symptoms = max_col counts,
                 no_symptoms = length (filter (\<lambda>c. c = 0) counts),
                 most_common = take 10 (value_counts tokens)\<rparr>
       else Inl TypeError))))"

section \<open>Demographics reporter\<close>

text \<open>
  \<^verbatim>\<open>pd.cut(self.df['age'], bins=age_bins, labels=age_labels, right=False)\<close> on a column:
  numbers are bucketed one by one; a column of another dtype cannot be compared with
  the bin edges, unless it has no cell at all.
\<close>

definition cut_age :: "column \<Rightarrow> error + string option list" where
  "cut_age col =
     (case numeric_cells col of Some xs \<Rightarrow> Inr (map age_group_of xs) | None \<Rightarrow> Inl TypeError)"

text \<open>
  \<^verbatim>\<open>self.df['age_group'].value_counts().sort_index()\<close> on a categorical column: one entry
  for every category in category order, also for a category that no record has.
\<close>

definition age_dist :: "string option list \<Rightarrow> (string \<times> nat) list" where
  "age_dist groups = map (\<lambda>l. (l, count_list groups (Some l))) age_labels"

text \<open>A cell of a column as a key of \<^verbatim>\<open>value_counts()\<close>; missing values are dropped.\<close>

datatype cell =
    NumV real | StrV string | ObjV json | TimeV datetime | CatV string

definition cells :: "column \<Rightarrow> cell list" where
  "cells col =
     (case col of NumCol xs \<Rightarrow> map NumV xs
      | StrCol xs \<Rightarrow> map StrV xs
      | ObjCol xs \<Rightarrow> map ObjV xs
      | TimeCol xs \<Rightarrow> map TimeV xs
      | CatCol xs \<Rightarrow> map CatV (concat (map (\<lambda>x. case x of None \<Rightarrow> [] | Some l \<Rightarrow> [l]) xs)))"

definition column_value_counts :: "column \<Rightarrow> error + (cell \<times> nat) list" where
  "column_value_counts col =
     (case col of
        ObjCol js \<Rightarrow> if list_all hashable js then Inr (value_counts (cells col)) else Inl TypeError
      | _ \<Rightarrow> Inr (value_counts (cells col)))"

text \<open>
  What the demographics reporter prints, line by line, without the number formats: the
  headings and the lines \<^verbatim>\<open>{key}: {count} ({count/len(self.df)*100:.1f}%)\<close>. A run of
  the reporter is the list of the lines printed and the exception that ended it, if any.
\<close>

datatype line =
    Heading string
  | AgeLine string nat real
  | GenderLine cell nat real
  | NoHistoryLine nat real
  | WithHistoryLine int real
  | ConditionLine cell nat real

type_synonym printed = "line list \<times> error option"

text \<open>One statement after another: what follows an exception is not executed.\<close>

definition then_print :: "printed \<Rightarrow> printed \<Rightarrow> printed" where
  "then_print a b = (case snd a of Some e \<Rightarrow> a | None \<Rightarrow> (fst a @ fst b, snd b))"

text \<open>
  A loop over \<^verbatim>\<open>dist.items()\<close> that prints one line per key; the percentage is computed
  before the line is printed, so the line of a failing division does not appear.
\<close>

fun percent_lines :: "('k \<Rightarrow> nat \<Rightarrow> real \<Rightarrow> line) \<Rightarrow> nat \<Rightarrow> ('k \<times> nat) list \<Rightarrow> printed" where
  "percent_lines mk n [] = ([], None)"
| "percent_lines mk n (kc # rest) =
     (case py_percent (int (snd kc)) n of
        Inl e \<Rightarrow> ([], Some e)
      | Inr p \<Rightarrow> then_print ([mk (fst kc) (snd kc) p], None) (percent_lines mk n rest))"

text \<open>Lines 98 to 100: the age groups of the column \<^verbatim>\<open>age_group\<close> with their shares.\<close>

definition age_distribution :: "dataframe \<Rightarrow> printed" where
  "age_distribution d =
     (case getitem d ''age_group'' of
        Inl e \<Rightarrow> ([], Some e)
      | Inr (CatCol groups) \<Rightarrow> percent_lines AgeLine (len_df d) (age_dist groups)
      | Inr _ \<Rightarrow> ([], Some TypeError))"

text \<open>Lines 103 to 106.\<close>

definition gender_distribution :: "dataframe \<Rightarrow> printed" where
  "gender_distribution d =
     then_print ([Heading ''Gender Distribution:''], None)
       (case bind_err (getitem d ''gender'') column_value_counts of
          Inl e \<Rightarrow> ([], Some e)
        | Inr gender_dist \<Rightarrow> percent_lines GenderLine (len_df d) gender_dist)"

text \<open>
  Lines 109 to 119: the heading, the two lines for the sentinel \<^verbatim>\<open>'none'\<close> and its
  complement, and up to ten other conditions.
\<close>

definition medical_history_distribution :: "dataframe \<Rightarrow> printed" where
  "medical_history_distribution d =
     then_print ([Heading ''Medical History Distribution:''], None)
       (case bind_err (getitem d ''medical_history'') column_value_counts of
          Inl e \<Rightarrow> ([], Some e)
        | Inr med_hist_dist \<Rightarrow>
            (let none_count =
                   (case map_of med_hist_dist (StrV ''none'') of None \<Rightarrow> 0 | Some k \<Rightarrow> k)
             in case py_percent (int none_count) (len_df d) of
                  Inl e \<Rightarrow> ([], Some e)
                | Inr p_none \<Rightarrow>
                    then_print ([NoHistoryLine none_count p_none], None)
                      (case py_percent (int (len_df d) - int none_count) (len_df d) of
                         Inl e \<Rightarrow> ([], Some e)
                       | Inr p_with \<Rightarrow>
                           then_print
                             ([WithHistoryLine (int (len_df d) - int none_count) p_with,
                               Heading ''Most Common Medical Conditions:''], None)
                             (percent_lines ConditionLine (len_df d)
                                (take 10
                                   (filter (\<lambda>kc. fst kc \<noteq> StrV ''none'') med_hist_dist))))))"

text \<open>
  \<^verbatim>\<open>analyze_demographics\<close>: prints the two headings, assigns the column \<^verbatim>\<open>age_group\<close>,
  then prints the three distributions in the order age, gender, medical history. The
  table is returned with the run, since the assignment has happened when a later line
  raises.
\<close>

definition analyze_demographics :: "dataframe \<Rightarrow> printed \<times> dataframe" where
  "analyze_demographics d =
     (let head = [Heading ''DEMOGRAPHICS ANALYSIS'', Heading ''Age Distribution:'']
      in case bind_err (getitem d ''age'') cut_age of
           Inl e \<Rightarrow> ((head, Some e), d)
         | Inr groups \<Rightarrow>
             (let d1 = setitem d ''age_group'' (CatCol groups)
              in (then_print (head, None)
                    (then_print (age_distribution d1)
                       (then_print (gender_distribution d1)
                          (medical_history_distribution d1))), d1)))"

section \<open>Correlation reporter\<close>

definition numeric_cols :: "string list" where
  "numeric_cols = [''severity'', ''sleep'', ''stress'', ''exercise'', ''age'', ''symptom_count'']"

text \<open>
  \<^verbatim>\<open>self.df[numeric_cols].corr()\<close>: the selection raises KeyError on a missing column;
  the matrix holds the pairwise Pearson coefficient of every two selected columns. The
  coefficient is pandas' own function, the parameter \<open>pearson\<close>; it is NaN (\<open>None\<close>) where
  pandas gives NaN, as for a constant column.
\<close>

record correlation_matrix =
  cm_columns :: "string list"
  cm_values :: "real option list list"

definition corr ::
  "(real list \<Rightarrow> real list \<Rightarrow> real option) \<Rightarrow> string list \<Rightarrow> real list list
     \<Rightarrow> correlation_matrix" where
  "corr pearson names cols =
     \<lparr>cm_columns = names, cm_values = map (\<lambda>a. map (\<lambda>b. pearson a b) cols) cols\<rparr>"

text \<open>\<^verbatim>\<open>abs(corr_val) > 0.3\<close>; a comparison with NaN is false.\<close>

definition strong :: "real option \<Rightarrow> bool" where
  "strong corr_val = (case corr_val of None \<Rightarrow> False | Some r \<Rightarrow> \<bar>r\<bar> > 3/10)"

text \<open>
  The two nested loops over \<^verbatim>\<open>range(len(columns))\<close> and \<^verbatim>\<open>range(i+1, len(columns))\<close>:
  the printed lines, in order, as triples of the two column names and the coefficient.
\<close>

definition correlation_lines :: "correlation_matrix \<Rightarrow> (string \<times> string \<times> real option) list" where
  "correlation_lines correlation_data =
     concat (map (\<lambda>i.
       concat (map (\<lambda>j.
         (let col1 = cm_columns correlation_data ! i;
              col2 = cm_columns correlation_data ! j;
              corr_val = cm_values correlation_data ! i ! j
          in if strong corr_val then [(col1, col2, corr_val)] else []))
         [i + 1 ..< length (cm_columns correlation_data)]))
       [0 ..< length (cm_columns correlation_data)])"

definition analyze_correlations ::
  "(real list \<Rightarrow> real list \<Rightarrow> real option) \<Rightarrow> dataframe
     \<Rightarrow> error + (string \<times> string \<times> real option) list \<times> correlation_matrix" where
  "analyze_correlations pearson d =
     bind_err (apply_err (getitem d) numeric_cols) (\<lambda>selected.
     bind_err (apply_err (\<lambda>c. case numeric_cells c of Some xs \<Rightarrow> Inr xs | None \<Rightarrow> Inl ValueError)
                 selected) (\<lambda>cols.
       let correlation_data = corr pearson numeric_cols cols
       in Inr (correlation_lines correlation_data, correlation_data)))"

section \<open>Temporal reporter\<close>

definition get_time_period :: "nat \<Rightarrow> string" where
  "get_time_period hour =
     (if 5 \<le> hour \<and> hour < 8 then ''early morning''
      else if 8 \<le> hour \<and> hour < 12 then ''morning''
      else if 12 \<le> hour \<and> hour < 14 then ''noon''
      else if 14 \<le> hour \<and> hour < 17 then ''afternoon''
      else if 17 \<le> hour \<and> hour < 20 then ''evening''
      else ''night'')"

definition dow_order :: "string list" where
  "dow_order = [''Monday'', ''Tuesday'', ''Wednesday'', ''Thursday'', ''Friday'', ''Saturday'',
                ''Sunday'']"

text \<open>\<^verbatim>\<open>groupby('hour')['severity'].mean()\<close>: the mean severity of each hour, hours ascending.\<close>

definition severity_by_hour :: "nat list \<Rightarrow> real list \<Rightarrow> (nat \<times> real) list" where
  "severity_by_hour hours severity =
     map (\<lambda>h. (h, (let g = map snd (filter (\<lambda>p. fst p = h) (zip hours severity))
                    in sum_list g / real (length g))))
       (sort (remdups hours))"

text \<open>\<^verbatim>\<open>idxmax\<close> and \<^verbatim>\<open>idxmin\<close>: the first key with the extreme value; none on an empty series.\<close>

fun idx_best :: "(real \<Rightarrow> real \<Rightarrow> bool) \<Rightarrow> (nat \<times> real) list \<Rightarrow> error + nat \<times> real" where
  "idx_best better [] = Inl ValueError"
| "idx_best better [kv] = Inr kv"
| "idx_best better (kv # rest) =
     bind_err (idx_best better rest) (\<lambda>b. Inr (if better (snd b) (snd kv) then b else kv))"

record temporal_report =
  hour_lines :: "(nat \<times> string \<times> nat) list"
  day_lines :: "(string \<times> nat) list"
  peak_hour :: "nat \<times> real"
  low_hour :: "nat \<times> real"

text \<open>
  \<^verbatim>\<open>analyze_temporal_patterns\<close>: the three assignments come first, each reading
  \<^verbatim>\<open>timestamp_parsed\<close> through the \<^verbatim>\<open>.dt\<close> accessor, which only a datetime column has.
\<close>

definition analyze_temporal_patterns :: "dataframe \<Rightarrow> (error + temporal_report) \<times> dataframe" where
  "analyze_temporal_patterns d =
     (case getitem d ''timestamp_parsed'' of
        Inl e \<Rightarrow> (Inl e, d)
      | Inr (TimeCol ts) \<Rightarrow>
          (let hours = map dt_hour ts;
               days = map dt_day_name ts;
               d1 = setitem d ''hour'' (NumCol (map real hours));
               d2 = setitem d1 ''day_of_week'' (StrCol days);
               d3 = setitem d2 ''month'' (NumCol (map (\<lambda>t. real (dt_month t)) ts))
           in (bind_err (get_numeric d3 ''severity'') (\<lambda>severity.
               let by_hour = severity_by_hour hours severity
               in bind_err (idx_best (\<lambda>a b. a > b) by_hour) (\<lambda>peak.
                  bind_err (idx_best (\<lambda>a b. a < b) by_hour) (\<lambda>low.
                    Inr \<lparr>hour_lines = map (\<lambda>h. (h, get_time_period h, count_list hours h))
                                         (sort (remdups hours)),
                         day_lines = filter (\<lambda>dc. snd dc > 0)
                                       (map (\<lambda>day. (day, count_list days day)) dow_order),
                         peak_hour = peak, low_hour = low\<rparr>))), d3))
      | Inr _ \<Rightarrow> (Inl AttributeError, d))"

section \<open>Clustering-feature analyzer\<close>

text \<open>
  \<^verbatim>\<open>series + 0.1\<close> and \<^verbatim>\<open>series / series\<close> work cell by cell on the shared index.
  The cells are finite numbers and the quotient is the exact one: what the model says of a
  ratio is its formula and what a zero divisor yields, not whether a quotient of very
  large cells overflows.
\<close>

definition add_scalar :: "real list \<Rightarrow> real \<Rightarrow> real list" where
  "add_scalar col c = map (\<lambda>x. x + c) col"

definition np_div :: "real \<Rightarrow> real \<Rightarrow> pyfloat" where
  "np_div x y =
     (if y \<noteq> 0 then Finite (x / y)
      else if x > 0 then PosInf else if x < 0 then NegInf else NaN)"

definition series_div :: "real list \<Rightarrow> real list \<Rightarrow> pyfloat list" where
  "series_div xs ys = map2 np_div xs ys"

definition sleep_stress_ratio :: "real list \<Rightarrow> real list \<Rightarrow> pyfloat list" where
  "sleep_stress_ratio sleep stress = series_div sleep (add_scalar stress (1/10))"

definition exercise_severity_ratio :: "real list \<Rightarrow> real list \<Rightarrow> pyfloat list" where
  "exercise_severity_ratio exercise severity = series_div exercise (add_scalar severity (1/10))"

definition lifestyle_score :: "real list \<Rightarrow> real list \<Rightarrow> real list \<Rightarrow> real list" where
  "lifestyle_score sleep exercise stress =
     map (\<lambda>x. x / 3)
       (map2 (\<lambda>a b. a - b) (map2 (\<lambda>a b. a + b) sleep (map (\<lambda>e. e / 10) exercise)) stress)"

text \<open>
  The feature table: six columns of \<^verbatim>\<open>self.df\<close> and the three derived ones, in this
  order.
\<close>

record features =
  f_index :: nat
  f_severity :: "real list"
  f_sleep :: "real list"
  f_stress :: "real list"
  f_exercise :: "real list"
  f_symptom_count :: "real list"
  f_age :: "real list"
  f_sleep_stress_ratio :: "pyfloat list"
  f_exercise_severity_ratio :: "pyfloat list"
  f_lifestyle_score :: "real list"

text \<open>
  \<^verbatim>\<open>analyze_clustering_features\<close>: \<^verbatim>\<open>self.df\<close> is only read. The arithmetic and the
  summary need every column to be numeric.
\<close>

definition analyze_clustering_features :: "dataframe \<Rightarrow> error + features" where
  "analyze_clustering_features d =
     bind_err (getitem d ''severity'') (\<lambda>c_severity.
     bind_err (getitem d ''sleep'') (\<lambda>c_sleep.
     bind_err (getitem d ''stress'') (\<lambda>c_stress.
     bind_err (getitem d ''exercise'') (\<lambda>c_exercise.
     bind_err (getitem d ''symptom_count'') (\<lambda>c_count.
     bind_err (getitem d ''age'') (\<lambda>c_age.
     bind_err (as_numeric c_sleep) (\<lambda>sleep.
     bind_err (as_numeric c_stress) (\<lambda>stress.
     bind_err (as_numeric c_exercise) (\<lambda>exercise.
     bind_err (as_numeric c_severity) (\<lambda>severity.
     bind_err (as_numeric c_count) (\<lambda>count.
     bind_err (as_numeric c_age) (\<lambda>age.
       Inr \<lparr>f_index = len_df d,
            f_severity = severity, f_sleep = sleep, f_stress = stress,
            f_exercise = exercise, f_symptom_count = count, f_age = age,
            f_sleep_stress_ratio = sleep_stress_ratio sleep stress,
            f_exercise_severity_ratio = exercise_severity_ratio exercise severity,
            f_lifestyle_score = lifestyle_score sleep exercise stress\<rparr>))))))))))))"

section \<open>Clustering recommendation engine\<close>

text \<open>
  The columns of the feature table in their order, as \<^verbatim>\<open>features_df.columns\<close> lists
  them. A ratio column that holds an infinity or a NaN has no modelled quantile (\<open>None\<close>).
\<close>

fun finite_values :: "pyfloat list \<Rightarrow> real list option" where
  "finite_values [] = Some []"
| "finite_values (Finite x # xs) = map_option (\<lambda>ys. x # ys) (finite_values xs)"
| "finite_values (_ # xs) = None"

definition feature_columns :: "features \<Rightarrow> (string \<times> real list option) list" where
  "feature_columns features_df =
     [(''severity'', Some (f_severity features_df)),
      (''sleep'', Some (f_sleep features_df)),
      (''stress'', Some (f_stress features_df)),
      (''exercise'', Some (f_exercise features_df)),
      (''symptom_count'', Some (f_symptom_count features_df)),
      (''age'', Some (f_age features_df)),
      (''sleep_stress_ratio'', finite_values (f_sleep_stress_ratio features_df)),
      (''exercise_severity_ratio'', finite_values (f_exercise_severity_ratio features_df)),
      (''lifestyle_score'', Some (f_lifestyle_score features_df))]"

text \<open>
  \<^verbatim>\<open>generate_clustering_recommendations\<close>: the range of k from the number of rows of the
  feature table, and the loop over its columns that fills \<^verbatim>\<open>outlier_counts\<close>. The
  normalisation hints and the importance scores are printed only and are not part of the
  result; none of these lines raises.
\<close>

record recommendations =
  k_range :: "int \<times> int"
  outlier_counts :: "(string \<times> nat option) list"

definition generate_clustering_recommendations ::
  "(real \<Rightarrow> pyfloat) \<Rightarrow> features \<Rightarrow> recommendations" where
  "generate_clustering_recommendations rnd features_df =
     (let n_samples = f_index features_df
      in \<lparr>k_range = (k_min n_samples, k_max n_samples),
          outlier_counts =
            map (\<lambda>nc. (fst nc, map_option (outliers rnd) (snd nc)))
              (feature_columns features_df)\<rparr>)"

section \<open>The full report\<close>

record report =
  rep_correlation_matrix :: correlation_matrix
  rep_clustering_features :: features
  rep_recommendations :: recommendations

text \<open>
  \<^verbatim>\<open>generate_report\<close> runs the six reporters in order on \<^verbatim>\<open>self.df\<close>; the first
  exception ends the run. The table \<^verbatim>\<open>self.df\<close> as it is then is returned with the
  outcome. The closing \<^verbatim>\<open>self.df.describe()\<close> only reads the table and is left out of
  the result.
\<close>

definition generate_report ::
  "(real \<Rightarrow> pyfloat) \<Rightarrow> (real list \<Rightarrow> real list \<Rightarrow> real option) \<Rightarrow> dataframe
     \<Rightarrow> (error + report) \<times> dataframe" where
  "generate_report rnd pearson d =
     (case analyze_basic_statistics d of
        Inl e \<Rightarrow> (Inl e, d)
      | Inr stats \<Rightarrow>
     (case analyze_demographics d of
        ((ls, Some e), d1) \<Rightarrow> (Inl e, d1)
      | ((ls, None), d1) \<Rightarrow>
     (case analyze_correlations pearson d1 of
        Inl e \<Rightarrow> (Inl e, d1)
      | Inr (cls, correlation_data) \<Rightarrow>
     (case analyze_temporal_patterns d1 of
        (Inl e, d2) \<Rightarrow> (Inl e, d2)
      | (Inr temporal, d2) \<Rightarrow>
     (case analyze_clustering_features d2 of
        Inl e \<Rightarrow> (Inl e, d2)
      | Inr features_df \<Rightarrow>
          (Inr \<lparr>rep_correlation_matrix = correlation_data,
                rep_clustering_features = features_df,
                rep_recommendations =
                  generate_clustering_recommendations rnd features_df\<rparr>,
           d2))))))"

section \<open>A small dataset\<close>

text \<open>
  Three records with a decoder and a timestamp parser that know their cells: the second
  record has malformed symptoms, the third is 100 years old.
\<close>

definition sample_loads :: "string \<Rightarrow> error + json" where
  "sample_loads s =
     (if s = ''[1, 2]'' then Inr (JArr [JNum 1, JNum 2])
      else if s = ''[]'' then Inr (JArr [])
      else Inl JSONDecodeError)"

definition sample_stamp :: "string \<Rightarrow> error + datetime" where
  "sample_stamp s =
     (if s = ''2024-01-01 08:00:00''
        then Inr \<lparr>dt_hour = 8, dt_day_name = ''Monday'', dt_month = 1\<rparr>
      else if s = ''2024-01-02 14:30:00''
        then Inr \<lparr>dt_hour = 14, dt_day_name = ''Tuesday'', dt_month = 1\<rparr>
      else if s = ''2024-02-03 08:15:00''
        then Inr \<lparr>dt_hour = 8, dt_day_name = ''Saturday'', dt_month = 2\<rparr>
      else Inl ValueError)"

definition sample_to_datetime :: "column \<Rightarrow> error + datetime list" where
  "sample_to_datetime col =
     (case col of StrCol ss \<Rightarrow> apply_err sample_stamp ss | _ \<Rightarrow> Inl ValueError)"

definition sample_table :: dataframe where
  "sample_table =
     \<lparr>df_index = 3,
      df_data =
        [(''userId'', StrCol [''u1'', ''u2'', ''u1'']),
         (''timestamp'',
            StrCol [''2024-01-01 08:00:00'', ''2024-01-02 14:30:00'', ''2024-02-03 08:15:00'']),
         (''symptoms'', StrCol [''[1, 2]'', ''{bad'', ''[]'']),
         (''severity'', NumCol [5, 7, 3]),
         (''sleep'', NumCol [8, 6, 7]),
         (''stress'', NumCol [4, 8, 2]),
         (''exercise'', NumCol [30, 0, 60]),
         (''age'', NumCol [24, 25, 100]),
         (''gender'', StrCol [''female'', ''male'', ''female'']),
         (''medical_history'', StrCol [''none'', ''diabetes'', ''none''])]\<rparr>"

definition sample_loaded :: dataframe where
  "sample_loaded =
     \<lparr>df_index = 3,
      df_data =
        [(''userId'', StrCol [''u1'', ''u2'', ''u1'']),
         (''timestamp'',
            StrCol [''2024-01-01 08:00:00'', ''2024-01-02 14:30:00'', ''2024-02-03 08:15:00'']),
         (''symptoms'', StrCol [''[1, 2]'', ''{bad'', ''[]'']),
         (''severity'', NumCol [5, 7, 3]),
         (''sleep'', NumCol [8, 6, 7]),
         (''stress'', NumCol [4, 8, 2]),
         (''exercise'', NumCol [30, 0, 60]),
         (''age'', NumCol [24, 25, 100]),
         (''gender'', StrCol [''female'', ''male'', ''female'']),
         (''medical_history'', StrCol [''none'', ''diabetes'', ''none'']),
         (''symptoms_parsed'', ObjCol [JArr [JNum 1, JNum 2], JArr [], JArr []]),
         (''symptom_count'', NumCol [2, 0, 0]),
         (''timestamp_parsed'',
            TimeCol [\<lparr>dt_hour = 8, dt_day_name = ''Monday'', dt_month = 1\<rparr>,
                     \<lparr>dt_hour = 14, dt_day_name = ''Tuesday'', dt_month = 1\<rparr>,
                     \<lparr>dt_hour = 8, dt_day_name = ''Saturday'', dt_month = 2\<rparr>])]\<rparr>"

text \<open>The table that \<^verbatim>\<open>pd.read_csv\<close> yields for a file with a header line and no record:
  every column has the object dtype. Below it, the same table after loading.\<close>

definition empty_table :: dataframe where
  "empty_table =
     \<lparr>df_index = 0,
      df_data =
        [(''userId'', StrCol []), (''timestamp'', StrCol []), (''symptoms'', StrCol []),
         (''severity'', StrCol []), (''sleep'', StrCol []), (''stress'', StrCol []),
         (''exercise'', StrCol []), (''age'', StrCol []), (''gender'', StrCol []),
         (''medical_history'', StrCol [])]\<rparr>"

definition empty_loaded :: dataframe where
  "empty_loaded =
     \<lparr>df_index = 0,
      df_data =
        [(''userId'', StrCol []), (''timestamp'', StrCol []), (''symptoms'', StrCol []),
         (''severity'', StrCol []), (''sleep'', StrCol []), (''stress'', StrCol []),
         (''exercise'', StrCol []), (''age'', StrCol []), (''gender'', StrCol []),
         (''medical_history'', StrCol []), (''symptoms_parsed'', ObjCol []),
         (''symptom_count'', NumCol []), (''timestamp_parsed'', TimeCol [])]\<rparr>"

text \<open>Four records at the edges of the age bins.\<close>

definition boundary_ages :: dataframe where
  "boundary_ages =
     \<lparr>df_index = 4,
      df_data =
        [(''age'', NumCol [24, 25, 99, 100]),
         (''gender'', StrCol [''female'', ''male'', ''female'', ''male'']),
         (''medical_history'', StrCol [''none'', ''asthma'', ''none'', ''none''])]\<rparr>"


text \<open>The ten columns of the input file, and the columns that the reporters assign.\<close>

definition input_columns :: "string list" where
  "input_columns = [''userId'', ''timestamp'', ''symptoms'', ''severity'', ''sleep'', ''stress'',
                    ''exercise'', ''age'', ''gender'', ''medical_history'']"

definition reporter_columns :: "string list" where
  "reporter_columns = [''age_group'', ''hour'', ''day_of_week'', ''month'']"

text \<open>
  Pearson's coefficient of two columns of equal length, the function that \<^verbatim>\<open>corr()\<close>
  computes; it is NaN where a column has no variance.
\<close>

definition pearson_r :: "real list \<Rightarrow> real list \<Rightarrow> real option" where
  "pearson_r xs ys =
     (let n = real (length xs);
          mx = sum_list xs / n;
          my = sum_list ys / n;
          sxy = sum_list (map2 (\<lambda>x y. (x - mx) * (y - my)) xs ys);
          sxx = sum_list (map (\<lambda>x. (x - mx)\<^sup>2) xs);
          syy = sum_list (map (\<lambda>y. (y - my)\<^sup>2) ys)
      in if sxx = 0 \<or> syy = 0 then None else Some (sxy / (sqrt sxx * sqrt syy)))"

section \<open>Properties of the loader\<close>

lemma apply_err_all2:
  "apply_err f xs = Inr ys \<Longrightarrow> list_all2 (\<lambda>x y. f x = Inr y) xs ys"
proof (induction xs arbitrary: ys)
  case Nil
  then show ?case by simp
next
  case (Cons x xs)
  then show ?case
    by (auto simp: bind_err_def split: sum.splits)
qed

lemma apply_err_map:
  "apply_err f (map g xs) = apply_err (\<lambda>x. f (g x)) xs"
  by (induction xs) simp_all

lemma getitem_setitem:
  "getitem (setitem d c col) c' = (if c' = c then Inr col else getitem d c')"
  by (simp add: getitem_def setitem_def update_conv')

lemma symptom_count_list:
  "loads s = Inr (JArr xs) \<Longrightarrow> symptom_count loads s = Inr (length xs)"
  by (simp add: symptom_count_def parse_symptoms_def)

lemma symptom_count_malformed:
  "loads s = Inl e \<Longrightarrow> parse_symptoms loads s = JArr [] \<and> symptom_count loads s = Inr 0"
  by (simp add: symptom_count_def parse_symptoms_def)

text \<open>
  A decoded value that is a number has no length: the loader then fails as a whole. Such
  a cell is well-formed JSON, not a list.
\<close>

lemma symptom_count_number:
  "loads s = Inr (JNum x) \<Longrightarrow> symptom_count loads s = Inl TypeError"
  by (simp add: symptom_count_def parse_symptoms_def)

lemma load_dataset_counts:
  assumes "getitem d ''symptoms'' = Inr (StrCol ss)"
    and "load_dataset loads to_datetime d = Inr d'"
  shows "\<exists>counts. getitem d' ''symptom_count'' = Inr (NumCol (map real counts)) \<and>
           list_all2 (\<lambda>s k. symptom_count loads s = Inr k) ss counts"
proof -
  from assms obtain counts where
    c: "apply_err py_len (map (parse_symptoms loads) ss) = Inr counts"
    by (auto simp: load_dataset_def bind_err_def symptoms_parsed_def Let_def split: sum.splits)
  have "list_all2 (\<lambda>s k. symptom_count loads s = Inr k) ss counts"
    using apply_err_all2 [of "\<lambda>s. py_len (parse_symptoms loads s)" ss counts] c
    by (simp add: apply_err_map symptom_count_def)
  moreover have "getitem d' ''symptom_count'' = Inr (NumCol (map real counts))"
    using assms c
    by (auto simp: load_dataset_def bind_err_def symptoms_parsed_def Let_def getitem_setitem
        split: sum.splits)
  ultimately show ?thesis by blast
qed

lemma sample_load: "load_dataset sample_loads sample_to_datetime sample_table = Inr sample_loaded"
  by (simp add: load_dataset_def sample_table_def sample_loaded_def sample_loads_def
      sample_to_datetime_def sample_stamp_def getitem_def setitem_def bind_err_def
      symptoms_parsed_def parse_symptoms_def Let_def)

text \<open>
  C1. For every record, \<^verbatim>\<open>symptom_count\<close> is the length of the list that decoding the
  record's \<^verbatim>\<open>symptoms\<close> string yields; where the decoder raises (malformed JSON) the
  parsed value is the empty list, the count is 0 and nothing is raised. In a loaded table
  the column \<^verbatim>\<open>symptom_count\<close> holds these counts record by record.
\<close>

theorem symptom_count_safe_decode:
  "(loads s = Inr (JArr xs) \<longrightarrow> symptom_count loads s = Inr (length xs)) \<and>
   (loads s = Inl e \<longrightarrow> parse_symptoms loads s = JArr [] \<and> symptom_count loads s = Inr 0) \<and>
   (getitem d ''symptoms'' = Inr (StrCol ss) \<and> load_dataset loads to_datetime d = Inr d' \<longrightarrow>
      (\<exists>counts. getitem d' ''symptom_count'' = Inr (NumCol (map real counts)) \<and>
                list_all2 (\<lambda>s k. symptom_count loads s = Inr k) ss counts))"
  using symptom_count_list [of loads s xs] symptom_count_malformed [of loads s e]
    load_dataset_counts [of d ss loads to_datetime d']
  by blast

theorem symptom_count_safe_decode_witness:
  "sample_loads ''[1, 2]'' = Inr (JArr [JNum 1, JNum 2]) \<and>
   symptom_count sample_loads ''[1, 2]'' = Inr 2 \<and>
   sample_loads ''{bad'' = Inl JSONDecodeError \<and>
   symptom_count sample_loads ''{bad'' = Inr 0 \<and>
   getitem sample_table ''symptoms'' = Inr (StrCol [''[1, 2]'', ''{bad'', ''[]'']) \<and>
   load_dataset sample_loads sample_to_datetime sample_table = Inr sample_loaded \<and>
   (\<exists>counts. getitem sample_loaded ''symptom_count'' = Inr (NumCol (map real counts)) \<and>
      list_all2 (\<lambda>s k. symptom_count sample_loads s = Inr k) [''[1, 2]'', ''{bad'', ''[]''] counts)"
proof -
  have a: "sample_loads ''[1, 2]'' = Inr (JArr [JNum 1, JNum 2])"
    and b: "sample_loads ''{bad'' = Inl JSONDecodeError"
    by (simp_all add: sample_loads_def)
  have c: "getitem sample_table ''symptoms'' = Inr (StrCol [''[1, 2]'', ''{bad'', ''[]''])"
    by (simp add: getitem_def sample_table_def)
  show ?thesis
    using a b c sample_load
      symptom_count_safe_decode [of sample_loads "''[1, 2]''" "[JNum 1, JNum 2]" JSONDecodeError
        sample_table "[''[1, 2]'', ''{bad'', ''[]'']" sample_to_datetime sample_loaded]
      symptom_count_safe_decode [of sample_loads "''{bad''" "[]" JSONDecodeError
        sample_table "[''[1, 2]'', ''{bad'', ''[]'']" sample_to_datetime sample_loaded]
    by simp
qed

section \<open>Properties of the age buckets\<close>

lemma age_group_of_bins:
  "age_group_of a =
     (if a < 0 then None
      else if a < 25 then Some ''16-25''
      else if a < 35 then Some ''26-35''
      else if a < 45 then Some ''36-45''
      else if a < 55 then Some ''46-55''
      else if a < 65 then Some ''56-65''
      else if a < 100 then Some ''65+''
      else None)"
  by (simp add: age_group_of_def cut_right_open_def searchsorted_right_def age_bins_def
      age_labels_def Let_def)

lemma analyze_demographics_age_group:
  assumes "getitem d ''age'' = Inr (NumCol ages)"
  shows "snd (analyze_demographics d) = setitem d ''age_group'' (CatCol (map age_group_of ages))"
  using assms
  by (simp add: analyze_demographics_def bind_err_def cut_age_def numeric_cells_def Let_def)

lemma boundary_ages_age: "getitem boundary_ages ''age'' = Inr (NumCol [24, 25, 99, 100])"
  by (simp add: getitem_def boundary_ages_def)

lemma boundary_ages_run:
  "fst (analyze_demographics boundary_ages) =
     ([Heading ''DEMOGRAPHICS ANALYSIS'', Heading ''Age Distribution:'',
       AgeLine ''16-25'' 1 25, AgeLine ''26-35'' 1 25, AgeLine ''36-45'' 0 0,
       AgeLine ''46-55'' 0 0, AgeLine ''56-65'' 0 0, AgeLine ''65+'' 1 25,
       Heading ''Gender Distribution:'',
       GenderLine (StrV ''female'') 2 50, GenderLine (StrV ''male'') 2 50,
       Heading ''Medical History Distribution:'',
       NoHistoryLine 3 75, WithHistoryLine 1 25,
       Heading ''Most Common Medical Conditions:'',
       ConditionLine (StrV ''asthma'') 1 25], None)"
  by (simp add: analyze_demographics_def boundary_ages_def bind_err_def cut_age_def
      numeric_cells_def Let_def getitem_def setitem_def age_distribution_def age_dist_def
      age_labels_def len_df_def then_print_def py_percent_def age_group_of_bins
      gender_distribution_def medical_history_distribution_def column_value_counts_def
      cells_def value_counts_def)

text \<open>
  C2. The column \<^verbatim>\<open>age_group\<close> that the demographics reporter assigns holds, for every
  record, the bucket of the record's age, and the buckets are the six right-open bins
  [0,25), [25,35), [35,45), [45,55), [55,65), [65,100) with the labels "16-25" to "65+".
  In a table with the ages 24, 25, 99 and 100 the first three records are in "16-25",
  "26-35" and "65+" and the last one is in no bin: the printed age lines count three of
  the four records.
\<close>

theorem age_group_column_bins:
  "(getitem d ''age'' = Inr (NumCol ages) \<longrightarrow>
      getitem (snd (analyze_demographics d)) ''age_group'' =
        Inr (CatCol (map age_group_of ages))) \<and>
   age_group_of a =
     (if a < 0 then None
      else if a < 25 then Some ''16-25''
      else if a < 35 then Some ''26-35''
      else if a < 45 then Some ''36-45''
      else if a < 55 then Some ''46-55''
      else if a < 65 then Some ''56-65''
      else if a < 100 then Some ''65+''
      else None) \<and>
   getitem (snd (analyze_demographics boundary_ages)) ''age_group'' =
     Inr (CatCol [Some ''16-25'', Some ''26-35'', Some ''65+'', None]) \<and>
   take 8 (fst (fst (analyze_demographics boundary_ages))) =
     [Heading ''DEMOGRAPHICS ANALYSIS'', Heading ''Age Distribution:'',
      AgeLine ''16-25'' 1 25, AgeLine ''26-35'' 1 25, AgeLine ''36-45'' 0 0,
      AgeLine ''46-55'' 0 0, AgeLine ''56-65'' 0 0, AgeLine ''65+'' 1 25]"
proof -
  have "getitem (snd (analyze_demographics boundary_ages)) ''age_group'' =
          Inr (CatCol (map age_group_of [24, 25, 99, 100]))"
    by (simp add: analyze_demographics_age_group [OF boundary_ages_age] getitem_setitem)
  then have "getitem (snd (analyze_demographics boundary_ages)) ''age_group'' =
     Inr (CatCol [Some ''16-25'', Some ''26-35'', Some ''65+'', None])"
    by (simp add: age_group_of_bins)
  moreover have "take 8 (fst (fst (analyze_demographics boundary_ages))) =
     [Heading ''DEMOGRAPHICS ANALYSIS'', Heading ''Age Distribution:'',
      AgeLine ''16-25'' 1 25, AgeLine ''26-35'' 1 25, AgeLine ''36-45'' 0 0,
      AgeLine ''46-55'' 0 0, AgeLine ''56-65'' 0 0, AgeLine ''65+'' 1 25]"
    by (simp add: boundary_ages_run)
  ultimately show ?thesis
    using analyze_demographics_age_group [of d ages] age_group_of_bins [of a]
    by (simp add: getitem_setitem)
qed

theorem age_group_column_bins_witness:
  "getitem boundary_ages ''age'' = Inr (NumCol [24, 25, 99, 100]) \<and>
   getitem (snd (analyze_demographics boundary_ages)) ''age_group'' =
     Inr (CatCol (map age_group_of [24, 25, 99, 100])) \<and>
   map age_group_of [24, 25, 99, 100] = [Some ''16-25'', Some ''26-35'', Some ''65+'', None]"
  using boundary_ages_age age_group_column_bins [of boundary_ages "[24, 25, 99, 100]" 0]
  by (simp add: age_group_of_bins)

section \<open>Properties of the derived features\<close>

lemma sleep_stress_ratio_nth:
  "i < length sleep \<Longrightarrow> i < length stress \<Longrightarrow>
   sleep_stress_ratio sleep stress ! i = np_div (sleep ! i) (stress ! i + 1/10)"
  by (simp add: sleep_stress_ratio_def series_div_def add_scalar_def)

lemma exercise_severity_ratio_nth:
  "i < length exercise \<Longrightarrow> i < length severity \<Longrightarrow>
   exercise_severity_ratio exercise severity ! i = np_div (exercise ! i) (severity ! i + 1/10)"
  by (simp add: exercise_severity_ratio_def series_div_def add_scalar_def)

lemma lifestyle_score_nth:
  "i < length sleep \<Longrightarrow> i < length exercise \<Longrightarrow> i < length stress \<Longrightarrow>
   lifestyle_score sleep exercise stress ! i = (sleep ! i + exercise ! i / 10 - stress ! i) / 3"
  by (simp add: lifestyle_score_def)

lemma np_div_nonzero: "y \<noteq> 0 \<Longrightarrow> np_div x y = Finite (x / y)"
  by (simp add: np_div_def)

lemma np_div_finite_iff: "(\<exists>r. np_div x y = Finite r) = (y \<noteq> 0)"
  by (simp add: np_div_def)

lemma analyze_clustering_features_numeric:
  assumes "getitem d ''severity'' = Inr (NumCol severity)"
    and "getitem d ''sleep'' = Inr (NumCol sleep)"
    and "getitem d ''stress'' = Inr (NumCol stress)"
    and "getitem d ''exercise'' = Inr (NumCol exercise)"
    and "getitem d ''symptom_count'' = Inr (NumCol count)"
    and "getitem d ''age'' = Inr (NumCol age)"
  shows "analyze_clustering_features d =
           Inr \<lparr>f_index = len_df d,
                f_severity = severity, f_sleep = sleep, f_stress = stress,
                f_exercise = exercise, f_symptom_count = count, f_age = age,
                f_sleep_stress_ratio = sleep_stress_ratio sleep stress,
                f_exercise_severity_ratio = exercise_severity_ratio exercise severity,
                f_lifestyle_score = lifestyle_score sleep exercise stress\<rparr>"
  using assms
  by (simp add: analyze_clustering_features_def bind_err_def as_numeric_def numeric_cells_def)

lemma sample_loaded_cols:
  "getitem sample_loaded ''severity'' = Inr (NumCol [5, 7, 3])"
  "getitem sample_loaded ''sleep'' = Inr (NumCol [8, 6, 7])"
  "getitem sample_loaded ''stress'' = Inr (NumCol [4, 8, 2])"
  "getitem sample_loaded ''exercise'' = Inr (NumCol [30, 0, 60])"
  "getitem sample_loaded ''symptom_count'' = Inr (NumCol [2, 0, 0])"
  "getitem sample_loaded ''age'' = Inr (NumCol [24, 25, 100])"
  by (simp_all add: getitem_def sample_loaded_def)

text \<open>
  C7. For every record of a table with numeric columns, the derived features are
  sleep_stress_ratio = sleep / (stress + 0.1), exercise_severity_ratio =
  exercise / (severity + 0.1) (numpy's division; the real quotient where the denominator
  is not zero) and lifestyle_score = (sleep + exercise/10 - stress) / 3; sleep = 8,
  exercise = 30, stress = 4 gives (8 + 3 - 4)/3 = 7/3.
\<close>

theorem derived_features:
  assumes "getitem d ''severity'' = Inr (NumCol severity)"
    and "getitem d ''sleep'' = Inr (NumCol sleep)"
    and "getitem d ''stress'' = Inr (NumCol stress)"
    and "getitem d ''exercise'' = Inr (NumCol exercise)"
    and "getitem d ''symptom_count'' = Inr (NumCol count)"
    and "getitem d ''age'' = Inr (NumCol age)"
    and "i < length severity" and "i < length sleep" and "i < length stress"
    and "i < length exercise"
  shows "(\<exists>f. analyze_clustering_features d = Inr f \<and>
           f_sleep_stress_ratio f ! i = np_div (sleep ! i) (stress ! i + 1/10) \<and>
           (stress ! i + 1/10 \<noteq> 0 \<longrightarrow>
              f_sleep_stress_ratio f ! i = Finite (sleep ! i / (stress ! i + 1/10))) \<and>
           f_exercise_severity_ratio f ! i = np_div (exercise ! i) (severity ! i + 1/10) \<and>
           (severity ! i + 1/10 \<noteq> 0 \<longrightarrow>
              f_exercise_severity_ratio f ! i = Finite (exercise ! i / (severity ! i + 1/10))) \<and>
           f_lifestyle_score f ! i = (sleep ! i + exercise ! i / 10 - stress ! i) / 3) \<and>
         lifestyle_score [8] [30] [4] = [(8 + 3 - 4) / 3] \<and>
         lifestyle_score [8] [30] [4] = [7 / 3]"
proof -
  have "lifestyle_score [8] [30] [4] = [(8 + 3 - 4) / 3]"
    and "lifestyle_score [8] [30] [4] = [7 / 3]"
    by (simp_all add: lifestyle_score_def)
  then show ?thesis
    using analyze_clustering_features_numeric [OF assms(1-6)] assms(7-10)
    by (simp add: sleep_stress_ratio_nth exercise_severity_ratio_nth lifestyle_score_nth
        np_div_nonzero)
qed

theorem derived_features_witness:
  "getitem sample_loaded ''severity'' = Inr (NumCol [5, 7, 3]) \<and>
   getitem sample_loaded ''sleep'' = Inr (NumCol [8, 6, 7]) \<and>
   getitem sample_loaded ''stress'' = Inr (NumCol [4, 8, 2]) \<and>
   getitem sample_loaded ''exercise'' = Inr (NumCol [30, 0, 60]) \<and>
   getitem sample_loaded ''symptom_count'' = Inr (NumCol [2, 0, 0]) \<and>
   getitem sample_loaded ''age'' = Inr (NumCol [24, 25, 100]) \<and>
   (\<exists>f. analyze_clustering_features sample_loaded = Inr f \<and>
        f_sleep_stress_ratio f ! 0 = Finite (8 / (4 + 1/10)) \<and>
        f_exercise_severity_ratio f ! 0 = Finite (30 / (5 + 1/10)) \<and>
        f_lifestyle_score f ! 0 = 7 / 3)"
  using sample_loaded_cols
    derived_features [OF sample_loaded_cols, of 0]
  by auto

text \<open>
  C8, as stated, fails: a record with stress = -0.1 has the denominator
  stress + 0.1 = 0, and the ratio is an infinity (or NaN for a zero numerator).
\<close>

theorem offset_zero_denominator:
  "add_scalar [- (1/10)] (1/10) ! 0 = 0 \<and> sleep_stress_ratio [8] [- (1/10)] = [PosInf] \<and>
   exercise_severity_ratio [0] [- (1/10)] = [NaN]"
  by (simp add: add_scalar_def sleep_stress_ratio_def exercise_severity_ratio_def
      series_div_def np_div_def)

text \<open>
  C8, amended. The ratios of the feature table are the divisions by stress + 0.1 and
  severity + 0.1, and such a denominator is zero exactly for a record whose stress
  (severity) is -0.1; for every non-negative stress (severity) it is positive.
\<close>

theorem offset_denominators:
  assumes "getitem d ''severity'' = Inr (NumCol severity)"
    and "getitem d ''sleep'' = Inr (NumCol sleep)"
    and "getitem d ''stress'' = Inr (NumCol stress)"
    and "getitem d ''exercise'' = Inr (NumCol exercise)"
    and "getitem d ''symptom_count'' = Inr (NumCol count)"
    and "getitem d ''age'' = Inr (NumCol age)"
    and "i < length severity" and "i < length sleep" and "i < length stress"
    and "i < length exercise"
  shows "(\<exists>f. analyze_clustering_features d = Inr f \<and>
            f_sleep_stress_ratio f ! i = np_div (sleep ! i) (add_scalar stress (1/10) ! i) \<and>
            f_exercise_severity_ratio f ! i =
              np_div (exercise ! i) (add_scalar severity (1/10) ! i)) \<and>
         (add_scalar stress (1/10) ! i = 0) = (stress ! i = - (1/10)) \<and>
         (add_scalar severity (1/10) ! i = 0) = (severity ! i = - (1/10)) \<and>
         (0 \<le> stress ! i \<longrightarrow> 0 < add_scalar stress (1/10) ! i) \<and>
         (0 \<le> severity ! i \<longrightarrow> 0 < add_scalar severity (1/10) ! i)"
proof -
  have "\<exists>f. analyze_clustering_features d = Inr f \<and>
            f_sleep_stress_ratio f ! i = np_div (sleep ! i) (add_scalar stress (1/10) ! i) \<and>
            f_exercise_severity_ratio f ! i =
              np_div (exercise ! i) (add_scalar severity (1/10) ! i)"
    using analyze_clustering_features_numeric [OF assms(1-6)] assms(7-10)
    by (simp add: sleep_stress_ratio_def exercise_severity_ratio_def series_div_def
        add_scalar_def)
  then show ?thesis
    using assms(7-10) by (auto simp: add_scalar_def)
qed

theorem offset_denominators_witness:
  "getitem sample_loaded ''severity'' = Inr (NumCol [5, 7, 3]) \<and>
   getitem sample_loaded ''sleep'' = Inr (NumCol [8, 6, 7]) \<and>
   getitem sample_loaded ''stress'' = Inr (NumCol [4, 8, 2]) \<and>
   getitem sample_loaded ''exercise'' = Inr (NumCol [30, 0, 60]) \<and>
   getitem sample_loaded ''symptom_count'' = Inr (NumCol [2, 0, 0]) \<and>
   getitem sample_loaded ''age'' = Inr (NumCol [24, 25, 100]) \<and>
   (0::real) \<le> [4, 8, 2] ! 0 \<and> (0::real) \<le> [5, 7, 3] ! 0 \<and>
   add_scalar [4, 8, 2] (1/10) ! 0 \<noteq> 0 \<and> add_scalar [5, 7, 3] (1/10) ! 0 \<noteq> 0 \<and>
   0 < add_scalar [4, 8, 2] (1/10) ! 0 \<and> 0 < add_scalar [5, 7, 3] (1/10) ! 0"
  using sample_loaded_cols
    offset_denominators [OF sample_loaded_cols, of 0]
  by simp

section \<open>Properties of the recommended range of k\<close>

lemma py_int_sqrt: "0 \<le> x \<Longrightarrow> py_int (sqrt x) = \<lfloor>sqrt x\<rfloor>"
  by (simp add: py_int_def)

lemma le_floor_sqrt:
  "0 \<le> k \<Longrightarrow> 0 \<le> x \<Longrightarrow> (k \<le> \<lfloor>sqrt x\<rfloor>) = ((of_int k)\<^sup>2 \<le> x)"
proof -
  assume k: "0 \<le> k" and x: "0 \<le> x"
  have "(k \<le> \<lfloor>sqrt x\<rfloor>) = (of_int k \<le> sqrt x)" by (simp add: le_floor_iff)
  also have "\<dots> = ((of_int k)\<^sup>2 \<le> x)"
    using k x
    by (metis of_int_0_le_iff real_le_rsqrt real_sqrt_le_iff real_sqrt_abs abs_of_nonneg)
  finally show ?thesis .
qed

lemma floor_sqrt_less:
  "0 \<le> k \<Longrightarrow> 0 \<le> x \<Longrightarrow> (\<lfloor>sqrt x\<rfloor> < k) = (x < (of_int k)\<^sup>2)"
  using le_floor_sqrt [of k x] by linarith

lemma floor_sqrt_eq:
  "0 \<le> k \<Longrightarrow> (of_int k)\<^sup>2 \<le> x \<Longrightarrow> x < (of_int (k + 1))\<^sup>2 \<Longrightarrow> \<lfloor>sqrt x\<rfloor> = k"
proof -
  assume k: "0 \<le> k" and lo: "(of_int k)\<^sup>2 \<le> x" and hi: "x < (of_int (k + 1))\<^sup>2"
  have x: "0 \<le> x" using lo by (meson order_trans zero_le_power2)
  have "k \<le> \<lfloor>sqrt x\<rfloor>" using le_floor_sqrt [OF k x] lo by simp
  moreover have "\<lfloor>sqrt x\<rfloor> < k + 1" using floor_sqrt_less [of "k + 1" x] k x hi by simp
  ultimately show ?thesis by linarith
qed

lemma k_min_floor: "k_min n = max 2 \<lfloor>sqrt (real n / 2)\<rfloor>"
  by (simp add: k_min_def py_int_sqrt)

lemma k_max_floor: "k_max n = min 10 \<lfloor>sqrt (real n)\<rfloor>"
  by (simp add: k_max_def py_int_sqrt)

lemma k_min_100: "k_min 100 = 7"
proof -
  have "\<lfloor>sqrt (50::real)\<rfloor> = 7" by (rule floor_sqrt_eq) simp_all
  then show ?thesis by (simp add: k_min_floor)
qed

lemma k_max_100: "k_max 100 = 10"
proof -
  have "\<lfloor>sqrt (100::real)\<rfloor> = 10" by (rule floor_sqrt_eq) simp_all
  then show ?thesis by (simp add: k_max_floor)
qed

lemma k_min_le_k_max_iff: "(k_min n \<le> k_max n) = (4 \<le> n \<and> n \<le> 241)"
proof -
  let ?a = "\<lfloor>sqrt (real n / 2)\<rfloor>" and ?b = "\<lfloor>sqrt (real n)\<rfloor>"
  have ab: "?a \<le> ?b" by (rule floor_mono) simp
  have b2: "(2 \<le> ?b) = (4 \<le> n)"
    using le_floor_sqrt [of 2 "real n"] by simp
  have a10: "(?a \<le> 10) = (n \<le> 241)"
  proof -
    have "(?a < 11) = (real n / 2 < 121)"
      using floor_sqrt_less [of 11 "real n / 2"] by simp
    also have "\<dots> = (n \<le> 241)" by auto
    finally show ?thesis by linarith
  qed
  have "(k_min n \<le> k_max n) = (2 \<le> ?b \<and> ?a \<le> 10)"
    unfolding k_min_floor k_max_floor using ab by auto
  then show ?thesis using b2 a10 by simp
qed

lemma recommendations_k_range:
  "k_range (generate_clustering_recommendations rnd f) = (k_min (f_index f), k_max (f_index f))"
  by (simp add: generate_clustering_recommendations_def Let_def)

lemma analyze_clustering_features_index:
  "analyze_clustering_features d = Inr f \<Longrightarrow> f_index f = len_df d"
  by (auto simp: analyze_clustering_features_def bind_err_def split: sum.splits)

text \<open>
  C5. For a feature table of n rows the engine recommends the range
  k_min = max(2, floor(sqrt(n/2))) to k_max = min(10, floor(sqrt(n))), where n is the
  number of records of the table the features were derived from; for n = 100 this is
  k_min = 7 and k_max = 10.
\<close>

theorem k_range_formula:
  "k_range (generate_clustering_recommendations rnd f) =
     (max 2 \<lfloor>sqrt (real (f_index f) / 2)\<rfloor>, min 10 \<lfloor>sqrt (real (f_index f))\<rfloor>) \<and>
   (analyze_clustering_features d = Inr f \<longrightarrow>
      k_range (generate_clustering_recommendations rnd f) =
        (max 2 \<lfloor>sqrt (real (len_df d) / 2)\<rfloor>, min 10 \<lfloor>sqrt (real (len_df d))\<rfloor>)) \<and>
   k_range (generate_clustering_recommendations rnd (f\<lparr>f_index := 100\<rparr>)) = (7, 10)"
proof -
  have a: "k_range (generate_clustering_recommendations rnd g) =
     (max 2 \<lfloor>sqrt (real (f_index g) / 2)\<rfloor>, min 10 \<lfloor>sqrt (real (f_index g))\<rfloor>)" for g
    using recommendations_k_range [of rnd g] k_min_floor [of "f_index g"]
      k_max_floor [of "f_index g"] by simp
  have b: "k_range (generate_clustering_recommendations rnd (f\<lparr>f_index := 100\<rparr>)) = (7, 10)"
    using recommendations_k_range [of rnd "f\<lparr>f_index := 100\<rparr>"] k_min_100 k_max_100 by simp
  show ?thesis
    using a [of f] b analyze_clustering_features_index [of d f] by auto
qed

theorem k_range_formula_witness:
  "\<exists>f. analyze_clustering_features sample_loaded = Inr f \<and>
       k_range (generate_clustering_recommendations Finite f) =
         (max 2 \<lfloor>sqrt (real (len_df sample_loaded) / 2)\<rfloor>,
          min 10 \<lfloor>sqrt (real (len_df sample_loaded))\<rfloor>)"
proof -
  obtain f where f: "analyze_clustering_features sample_loaded = Inr f"
    using analyze_clustering_features_numeric [OF sample_loaded_cols] by blast
  then show ?thesis
    using k_range_formula [of Finite f sample_loaded] by blast
qed

text \<open>
  C6. The range that the engine recommends is well-ordered, k_min \<open>\<le>\<close> k_max, exactly
  for feature tables of 4 \<open>\<le>\<close> n \<open>\<le>\<close> 241 rows; for n \<open>\<le>\<close> 3 and for n \<open>\<ge>\<close> 242 k_min is
  strictly greater than k_max and the range is empty.
\<close>

theorem k_range_ordered:
  "(fst (k_range (generate_clustering_recommendations rnd f))
      \<le> snd (k_range (generate_clustering_recommendations rnd f))) =
     (4 \<le> f_index f \<and> f_index f \<le> 241) \<and>
   (snd (k_range (generate_clustering_recommendations rnd f))
      < fst (k_range (generate_clustering_recommendations rnd f))) =
     (f_index f \<le> 3 \<or> 242 \<le> f_index f)"
  using k_min_le_k_max_iff [of "f_index f"] recommendations_k_range [of rnd f]
  by auto

section \<open>Properties of the outlier analysis\<close>














text \<open>
  The rounding decides at the fence. The cells are the float64 values of 1.4, 2.8, 1.9,
  1.4 and 4.9; the product 1.5 * IQR lies half-way between two floats and is rounded to
  the even one, so the upper fence is the float below 4.9 and the last value is flagged.
\<close>

lemma rounded_fence_flags:
  assumes "rnd (3152519739159347 / 2^51) = Finite (3152519739159347 / 2^51)"
    and "rnd (9457559217478041 / 2^52) = Finite (1182194902184755 / 2^49)"
    and "rnd (5516909543528857 / 2^50) = Finite (5516909543528857 / 2^50)"
    and "rnd (- (1576259869579673 / 2^51)) = Finite (- (1576259869579673 / 2^51))"
  shows "outlier_mask rnd
           [3152519739159347 / 2^51, 3152519739159347 / 2^50, 4278419646001971 / 2^51,
            3152519739159347 / 2^51, 2758454771764429 / 2^49] =
         [False, False, False, False, True]"
proof -
  let ?col = "[3152519739159347 / 2^51, 3152519739159347 / 2^50, 4278419646001971 / 2^51,
            3152519739159347 / 2^51, 2758454771764429 / 2^49] :: real list"
  have q1: "quantile (1/4) ?col = Some (3152519739159347 / 2^51)"
    and q3: "quantile (3/4) ?col = Some (3152519739159347 / 2^50)"
    by (simp_all add: quantile_def Let_def)
  have i: "iqr rnd (3152519739159347 / 2^51) (3152519739159347 / 2^50) =
             Finite (3152519739159347 / 2^51)"
    using assms(1) by (simp add: iqr_def f_sub_def)
  have p: "f_mul rnd (Finite (3/2)) (Finite (3152519739159347 / 2^51)) =
             Finite (1182194902184755 / 2^49)"
    using assms(2) by simp
  have u: "upper_fence rnd (3152519739159347 / 2^51) (3152519739159347 / 2^50) =
             Finite (5516909543528857 / 2^50)"
    unfolding upper_fence_def i p using assms(3) by simp
  have l: "lower_fence rnd (3152519739159347 / 2^51) (3152519739159347 / 2^50) =
             Finite (- (1576259869579673 / 2^51))"
    unfolding lower_fence_def i p f_sub_def using assms(4) by simp
  show ?thesis
    unfolding outlier_mask_def q1 q3 prod.case option.case u l by simp
qed

text \<open>In exact arithmetic the fence of the same decimal numbers is 4.9 and nothing is flagged.\<close>

lemma exact_fence_flags_nothing:
  "outlier_mask Finite [14/10, 28/10, 19/10, 14/10, 49/10] = [False, False, False, False, False]"
  by (simp add: outlier_mask_def quantile_def Let_def lower_fence_def upper_fence_def iqr_def
      f_sub_def)



section \<open>Properties of the correlation reporter\<close>

lemma correlation_lines_set:
  "set (correlation_lines cd) =
     {(cm_columns cd ! i, cm_columns cd ! j, cm_values cd ! i ! j) | i j.
        i < j \<and> j < length (cm_columns cd) \<and> strong (cm_values cd ! i ! j)}"
  (is "?L = ?R")
proof (intro set_eqI iffI)
  fix x
  assume "x \<in> ?L"
  then obtain i j where "i < length (cm_columns cd)" "Suc i \<le> j" "j < length (cm_columns cd)"
    "strong (cm_values cd ! i ! j)"
    "x = (cm_columns cd ! i, cm_columns cd ! j, cm_values cd ! i ! j)"
    by (auto simp: correlation_lines_def Let_def split: if_splits)
  then have "i < j \<and> j < length (cm_columns cd) \<and> strong (cm_values cd ! i ! j) \<and>
             x = (cm_columns cd ! i, cm_columns cd ! j, cm_values cd ! i ! j)"
    by simp
  then show "x \<in> ?R" by blast
next
  fix x
  assume "x \<in> ?R"
  then obtain i j where h: "i < j" "j < length (cm_columns cd)" "strong (cm_values cd ! i ! j)"
    "x = (cm_columns cd ! i, cm_columns cd ! j, cm_values cd ! i ! j)"
    by blast
  have i: "i \<in> set [0 ..< length (cm_columns cd)]" using h(1,2) by simp
  have j: "j \<in> set [i + 1 ..< length (cm_columns cd)]" using h(1,2) by simp
  show "x \<in> ?L"
    unfolding correlation_lines_def set_concat set_map
    using i j h(3,4) by (force simp: Let_def)
qed

lemma corr_value:
  "i < length cols \<Longrightarrow> j < length cols \<Longrightarrow>
   cm_values (corr pearson names cols) ! i ! j = pearson (cols ! i) (cols ! j)"
  by (simp add: corr_def)

lemma distinct_numeric_cols: "distinct numeric_cols"
  by (simp add: numeric_cols_def)

lemma length_numeric_cols: "length numeric_cols = 6"
  by (simp add: numeric_cols_def)

lemma analyze_correlations_numeric:
  assumes "getitem d ''severity'' = Inr (NumCol severity)"
    and "getitem d ''sleep'' = Inr (NumCol sleep)"
    and "getitem d ''stress'' = Inr (NumCol stress)"
    and "getitem d ''exercise'' = Inr (NumCol exercise)"
    and "getitem d ''age'' = Inr (NumCol age)"
    and "getitem d ''symptom_count'' = Inr (NumCol count)"
  shows "analyze_correlations pearson d =
           Inr (correlation_lines
                  (corr pearson numeric_cols [severity, sleep, stress, exercise, age, count]),
                corr pearson numeric_cols [severity, sleep, stress, exercise, age, count])"
  using assms
  by (simp add: analyze_correlations_def numeric_cols_def bind_err_def numeric_cells_def Let_def)

lemma strong_iff: "strong v = (\<exists>r. v = Some r \<and> \<bar>r\<bar> > 3/10)"
  by (cases v) (simp_all add: strong_def)

lemma lines_upper_triangle:
  assumes "length cols = 6"
  shows "(a, b, v) \<in> set (correlation_lines (corr pearson numeric_cols cols)) =
           (\<exists>i j. i < j \<and> j < 6 \<and> a = numeric_cols ! i \<and> b = numeric_cols ! j \<and>
                  v = pearson (cols ! i) (cols ! j) \<and> strong v)"
proof -
  let ?cd = "corr pearson numeric_cols cols"
  have n: "cm_columns ?cd = numeric_cols"
    by (simp add: corr_def)
  have v: "cm_values ?cd ! i ! j = pearson (cols ! i) (cols ! j)" if "i < j" "j < 6" for i j
    using that assms by (simp add: corr_value)
  have "(a, b, v) \<in> set (correlation_lines ?cd) =
          (\<exists>i j. i < j \<and> j < 6 \<and> strong (cm_values ?cd ! i ! j) \<and>
                 (a, b, v) = (numeric_cols ! i, numeric_cols ! j, cm_values ?cd ! i ! j))"
    unfolding correlation_lines_set n length_numeric_cols by blast
  also have "\<dots> = (\<exists>i j. i < j \<and> j < 6 \<and> a = numeric_cols ! i \<and> b = numeric_cols ! j \<and>
                        v = pearson (cols ! i) (cols ! j) \<and> strong v)"
  proof (intro iffI; elim exE conjE)
    fix i j
    assume "i < j" "j < 6" "strong (cm_values ?cd ! i ! j)"
      "(a, b, v) = (numeric_cols ! i, numeric_cols ! j, cm_values ?cd ! i ! j)"
    then show "\<exists>i j. i < j \<and> j < 6 \<and> a = numeric_cols ! i \<and> b = numeric_cols ! j \<and>
                 v = pearson (cols ! i) (cols ! j) \<and> strong v"
      by (intro exI [of _ i] exI [of _ j]) (simp add: v)
  next
    fix i j
    assume "i < j" "j < 6" "a = numeric_cols ! i" "b = numeric_cols ! j"
      "v = pearson (cols ! i) (cols ! j)" "strong v"
    then show "\<exists>i j. i < j \<and> j < 6 \<and> strong (cm_values ?cd ! i ! j) \<and>
                 (a, b, v) = (numeric_cols ! i, numeric_cols ! j, cm_values ?cd ! i ! j)"
      by (intro exI [of _ i] exI [of _ j]) (simp add: v)
  qed
  finally show ?thesis .
qed

lemma numeric_cols_nth_eq:
  "i < 6 \<Longrightarrow> j < 6 \<Longrightarrow> (numeric_cols ! i = numeric_cols ! j) = (i = j)"
  using nth_eq_iff_index_eq [OF distinct_numeric_cols, of i j] by (simp add: length_numeric_cols)

lemma sample_pearson_severity_stress:
  "\<exists>r. pearson_r [5, 7, 3] [4, 8, 2] = Some r \<and> \<bar>r\<bar> > 3/10"
proof -
  have v: "pearson_r [5, 7, 3] [4, 8, 2] = Some (12 / (sqrt 8 * sqrt (56/3)))"
    by (simp add: pearson_r_def Let_def power2_eq_square)
  have a: "sqrt 8 < 3" by (rule real_less_lsqrt) simp_all
  have b: "sqrt (56/3) < 5" by (rule real_less_lsqrt) simp_all
  have p: "0 < sqrt 8 * sqrt (56/3)" by simp
  have "sqrt 8 * sqrt (56/3) < 3 * 5"
    using a b by (intro mult_strict_mono) simp_all
  then have "sqrt 8 * sqrt (56/3) < 40" by simp
  then have "3/10 * (sqrt 8 * sqrt (56/3)) < 12" by simp
  then have "3/10 < 12 / (sqrt 8 * sqrt (56/3))"
    using p by (simp add: pos_less_divide_eq)
  then have "\<bar>12 / (sqrt 8 * sqrt (56/3))\<bar> > 3/10" by linarith
  with v show ?thesis by blast
qed

text \<open>
  C3. On a table with the six numeric columns severity, sleep, stress, exercise, age and
  symptom_count, the correlation reporter prints a line for two distinct columns A before
  B if and only if the absolute Pearson coefficient of A and B exceeds 0.3; every line
  names a column and a later one (upper triangle), and no pair is printed in both orders.
\<close>

theorem correlation_report:
  assumes "getitem d ''severity'' = Inr (NumCol severity)"
    and "getitem d ''sleep'' = Inr (NumCol sleep)"
    and "getitem d ''stress'' = Inr (NumCol stress)"
    and "getitem d ''exercise'' = Inr (NumCol exercise)"
    and "getitem d ''age'' = Inr (NumCol age)"
    and "getitem d ''symptom_count'' = Inr (NumCol count)"
    and "cols = [severity, sleep, stress, exercise, age, count]"
  shows "\<exists>ls cd. analyze_correlations pearson d = Inr (ls, cd) \<and>
           (\<forall>i j. i < j \<and> j < 6 \<longrightarrow>
              (\<exists>v. (numeric_cols ! i, numeric_cols ! j, v) \<in> set ls) =
              (\<exists>r. pearson (cols ! i) (cols ! j) = Some r \<and> \<bar>r\<bar> > 3/10)) \<and>
           (\<forall>a b v. (a, b, v) \<in> set ls \<longrightarrow>
              (\<exists>i j. i < j \<and> j < 6 \<and> a = numeric_cols ! i \<and> b = numeric_cols ! j \<and>
                     v = pearson (cols ! i) (cols ! j))) \<and>
           (\<forall>a b v w. (a, b, v) \<in> set ls \<longrightarrow> (b, a, w) \<notin> set ls)"
proof -
  let ?ls = "correlation_lines (corr pearson numeric_cols cols)"
  have len: "length cols = 6" using assms(7) by simp
  note ut = lines_upper_triangle [OF len, of _ _ _ pearson]
  have run: "analyze_correlations pearson d = Inr (?ls, corr pearson numeric_cols cols)"
    using analyze_correlations_numeric [OF assms(1-6)] assms(7) by simp
  have iff: "(\<exists>v. (numeric_cols ! i, numeric_cols ! j, v) \<in> set ?ls) =
             (\<exists>r. pearson (cols ! i) (cols ! j) = Some r \<and> \<bar>r\<bar> > 3/10)"
    if "i < j" "j < 6" for i j
  proof
    assume "\<exists>v. (numeric_cols ! i, numeric_cols ! j, v) \<in> set ?ls"
    then obtain v i' j' where h: "i' < j'" "j' < 6" "numeric_cols ! i = numeric_cols ! i'"
      "numeric_cols ! j = numeric_cols ! j'" "v = pearson (cols ! i') (cols ! j')" "strong v"
      unfolding ut by blast
    have "i = i'" "j = j'"
      using h(1-4) that numeric_cols_nth_eq [of i i'] numeric_cols_nth_eq [of j j'] by simp_all
    then show "\<exists>r. pearson (cols ! i) (cols ! j) = Some r \<and> \<bar>r\<bar> > 3/10"
      using h(5,6) by (simp add: strong_iff)
  next
    assume "\<exists>r. pearson (cols ! i) (cols ! j) = Some r \<and> \<bar>r\<bar> > 3/10"
    then have "strong (pearson (cols ! i) (cols ! j))" by (simp add: strong_iff)
    then have "(numeric_cols ! i, numeric_cols ! j, pearson (cols ! i) (cols ! j)) \<in> set ?ls"
      unfolding ut using that by blast
    then show "\<exists>v. (numeric_cols ! i, numeric_cols ! j, v) \<in> set ?ls" by blast
  qed
  have upper: "\<exists>i j. i < j \<and> j < 6 \<and> a = numeric_cols ! i \<and> b = numeric_cols ! j \<and>
                 v = pearson (cols ! i) (cols ! j)"
    if "(a, b, v) \<in> set ?ls" for a b v
    using that unfolding ut by blast
  have once: "(b, a, w) \<notin> set ?ls" if "(a, b, v) \<in> set ?ls" for a b v w
  proof
    assume "(b, a, w) \<in> set ?ls"
    then obtain i j where 1: "i < j" "j < 6" "b = numeric_cols ! i" "a = numeric_cols ! j"
      unfolding ut by blast
    from that obtain i' j' where 2: "i' < j'" "j' < 6" "a = numeric_cols ! i'"
      "b = numeric_cols ! j'"
      unfolding ut by blast
    have "j = i'" "i = j'"
      using 1 2 numeric_cols_nth_eq [of j i'] numeric_cols_nth_eq [of i j'] by simp_all
    then show False using 1(1) 2(1) by simp
  qed
  show ?thesis
    using run iff upper once by blast
qed

theorem correlation_report_witness:
  "getitem sample_loaded ''severity'' = Inr (NumCol [5, 7, 3]) \<and>
   getitem sample_loaded ''sleep'' = Inr (NumCol [8, 6, 7]) \<and>
   getitem sample_loaded ''stress'' = Inr (NumCol [4, 8, 2]) \<and>
   getitem sample_loaded ''exercise'' = Inr (NumCol [30, 0, 60]) \<and>
   getitem sample_loaded ''age'' = Inr (NumCol [24, 25, 100]) \<and>
   getitem sample_loaded ''symptom_count'' = Inr (NumCol [2, 0, 0]) \<and>
   (\<exists>ls cd. analyze_correlations pearson_r sample_loaded = Inr (ls, cd) \<and>
      (\<exists>v. (''severity'', ''stress'', v) \<in> set ls) \<and>
      (\<forall>w. (''stress'', ''severity'', w) \<notin> set ls))"
proof -
  have c: "getitem sample_loaded ''severity'' = Inr (NumCol [5, 7, 3])"
    "getitem sample_loaded ''sleep'' = Inr (NumCol [8, 6, 7])"
    "getitem sample_loaded ''stress'' = Inr (NumCol [4, 8, 2])"
    "getitem sample_loaded ''exercise'' = Inr (NumCol [30, 0, 60])"
    "getitem sample_loaded ''age'' = Inr (NumCol [24, 25, 100])"
    "getitem sample_loaded ''symptom_count'' = Inr (NumCol [2, 0, 0])"
    by (simp_all add: getitem_def sample_loaded_def)
  let ?cols = "[[5, 7, 3], [8, 6, 7], [4, 8, 2], [30, 0, 60], [24, 25, 100], [2, 0, 0 :: real]]"
  obtain ls cd where run: "analyze_correlations pearson_r sample_loaded = Inr (ls, cd)"
    and iff: "\<forall>i j. i < j \<and> j < 6 \<longrightarrow>
              (\<exists>v. (numeric_cols ! i, numeric_cols ! j, v) \<in> set ls) =
              (\<exists>r. pearson_r (?cols ! i) (?cols ! j) = Some r \<and> \<bar>r\<bar> > 3/10)"
    and once: "\<forall>a b v w. (a, b, v) \<in> set ls \<longrightarrow> (b, a, w) \<notin> set ls"
    using correlation_report [OF c refl, of pearson_r] by blast
  have "(\<exists>v. (numeric_cols ! 0, numeric_cols ! 2, v) \<in> set ls) =
        (\<exists>r. pearson_r (?cols ! 0) (?cols ! 2) = Some r \<and> \<bar>r\<bar> > 3/10)"
    using iff by (simp del: One_nat_def)
  then have rep: "\<exists>v. (''severity'', ''stress'', v) \<in> set ls"
    using sample_pearson_severity_stress by (simp add: numeric_cols_def)
  then have "\<forall>w. (''stress'', ''severity'', w) \<notin> set ls"
    using once by blast
  with run rep c show ?thesis by blast
qed

section \<open>The demographics reporter on a dataset without records\<close>

lemma len_setitem: "len_df (setitem d c col) = len_df d"
  by (simp add: len_df_def setitem_def)

lemma percent_lines_zero:
  "counts \<noteq> [] \<Longrightarrow> percent_lines mk 0 counts = ([], Some ZeroDivisionError)"
  by (cases counts) (simp_all add: py_percent_def)

lemma age_distribution_zero:
  assumes "len_df d = 0" and "getitem d ''age_group'' = Inr (CatCol groups)"
  shows "age_distribution d = ([], Some ZeroDivisionError)"
proof -
  have "age_dist groups \<noteq> []" by (simp add: age_dist_def age_labels_def)
  then show ?thesis
    using assms by (simp add: age_distribution_def percent_lines_zero)
qed

lemma cut_age_empty: "col_len c = 0 \<Longrightarrow> cut_age c = Inr []"
  by (cases c) (simp_all add: cut_age_def numeric_cells_def col_len_def)

lemma analyze_demographics_zero:
  assumes "len_df d = 0" and "getitem d ''age'' = Inr c" and "col_len c = 0"
  shows "analyze_demographics d =
           (([Heading ''DEMOGRAPHICS ANALYSIS'', Heading ''Age Distribution:''],
             Some ZeroDivisionError),
            setitem d ''age_group'' (CatCol []))"
proof -
  let ?d1 = "setitem d ''age_group'' (CatCol [])"
  have "age_distribution ?d1 = ([], Some ZeroDivisionError)"
    by (rule age_distribution_zero [of _ "[]"])
      (simp_all add: len_setitem assms(1) getitem_setitem)
  then show ?thesis
    using assms(2) cut_age_empty [OF assms(3)]
    by (simp add: analyze_demographics_def bind_err_def Let_def then_print_def)
qed

lemma statistics_object_column:
  assumes "getitem d ''severity'' = Inr (StrCol ss)"
  shows "analyze_basic_statistics d = Inl KeyError"
proof -
  have "map_of (df_data d) ''severity'' = Some (StrCol ss)"
    using assms by (simp add: getitem_def split: option.splits)
  then show ?thesis
    by (simp add: analyze_basic_statistics_def describe_def bind_err_def)
qed

lemma generate_report_statistics_error:
  "analyze_basic_statistics d = Inl e \<Longrightarrow> generate_report rnd pearson d = (Inl e, d)"
  by (simp add: generate_report_def)

text \<open>
  C9, as stated, fails: on the loaded table of a file without records the demographics
  reporter raises the division by zero after the heading of the age distribution, at the
  first age-group percentage, where each of the six age groups is listed with the count 0;
  the heading of the medical history is never printed. In a run of the full report the
  demographics reporter is not reached: the statistics reporter raises KeyError and the
  table is left as loaded.
\<close>

theorem empty_dataset_fails_at_age_groups:
  "analyze_demographics empty_loaded =
     (([Heading ''DEMOGRAPHICS ANALYSIS'', Heading ''Age Distribution:''],
       Some ZeroDivisionError),
      setitem empty_loaded ''age_group'' (CatCol [])) \<and>
   age_dist [] = [(''16-25'', 0), (''26-35'', 0), (''36-45'', 0), (''46-55'', 0),
                  (''56-65'', 0), (''65+'', 0)] \<and>
   analyze_basic_statistics empty_loaded = Inl KeyError \<and>
   generate_report Finite pearson_r empty_loaded = (Inl KeyError, empty_loaded)"
proof -
  have l: "len_df empty_loaded = 0" by (simp add: len_df_def empty_loaded_def)
  have a: "getitem empty_loaded ''age'' = Inr (StrCol [])"
    and s: "getitem empty_loaded ''severity'' = Inr (StrCol [])"
    by (simp_all add: getitem_def empty_loaded_def)
  have "age_dist [] = [(''16-25'', 0), (''26-35'', 0), (''36-45'', 0), (''46-55'', 0),
                  (''56-65'', 0), (''65+'', 0)]"
    by (simp add: age_dist_def age_labels_def)
  then show ?thesis
    using analyze_demographics_zero [OF l a] statistics_object_column [OF s]
      generate_report_statistics_error [of empty_loaded KeyError Finite pearson_r]
    by (simp add: col_len_def)
qed

text \<open>
  C9, amended. For a loaded dataset with zero records, whose columns have the object
  dtype, the report aborts: the statistics reporter raises KeyError before the
  demographics reporter runs. The demographics reporter itself fails on such a table with
  a division-by-zero error, raised by the first age-group percentage (a count of 0 divided
  by the number of records) right after the heading of the age distribution, before the
  gender lines and the medical-history percentages.
\<close>

theorem empty_dataset_demographics:
  assumes "len_df d = 0" and "getitem d ''age'' = Inr c" and "col_len c = 0"
    and "getitem d ''severity'' = Inr (StrCol [])"
  shows "analyze_demographics d =
           (([Heading ''DEMOGRAPHICS ANALYSIS'', Heading ''Age Distribution:''],
             Some ZeroDivisionError),
            setitem d ''age_group'' (CatCol [])) \<and>
         analyze_basic_statistics d = Inl KeyError \<and>
         generate_report rnd pearson d = (Inl KeyError, d)"
  using analyze_demographics_zero [OF assms(1-3)] statistics_object_column [OF assms(4)]
    generate_report_statistics_error [of d KeyError rnd pearson]
  by simp

theorem empty_dataset_demographics_witness:
  "len_df empty_loaded = 0 \<and> getitem empty_loaded ''age'' = Inr (StrCol []) \<and>
   col_len (StrCol []) = 0 \<and> getitem empty_loaded ''severity'' = Inr (StrCol []) \<and>
   load_dataset sample_loads sample_to_datetime empty_table = Inr empty_loaded \<and>
   fst (analyze_demographics empty_loaded) =
     ([Heading ''DEMOGRAPHICS ANALYSIS'', Heading ''Age Distribution:''],
      Some ZeroDivisionError) \<and>
   generate_report Finite pearson_r empty_loaded = (Inl KeyError, empty_loaded)"
proof -
  have l: "len_df empty_loaded = 0" by (simp add: len_df_def empty_loaded_def)
  have a: "getitem empty_loaded ''age'' = Inr (StrCol [])"
    and s: "getitem empty_loaded ''severity'' = Inr (StrCol [])"
    by (simp_all add: getitem_def empty_loaded_def)
  have c: "col_len (StrCol []) = 0" by (simp add: col_len_def)
  have ld: "load_dataset sample_loads sample_to_datetime empty_table = Inr empty_loaded"
    by (simp add: load_dataset_def empty_table_def empty_loaded_def
      sample_to_datetime_def getitem_def setitem_def bind_err_def
      symptoms_parsed_def Let_def)
  show ?thesis
    using l a s c ld empty_dataset_demographics [OF l a c s, of Finite pearson_r] by simp
qed

section \<open>Columns assigned by the reporters\<close>

lemma demographics_state:
  "snd (analyze_demographics d) = d \<or>
   (\<exists>groups. snd (analyze_demographics d) = setitem d ''age_group'' (CatCol groups))"
proof (cases "bind_err (getitem d ''age'') cut_age")
  case (Inl e)
  then show ?thesis by (simp add: analyze_demographics_def Let_def)
next
  case (Inr groups)
  then show ?thesis by (simp add: analyze_demographics_def Let_def) blast
qed

lemma demographics_frame:
  "len_df (snd (analyze_demographics d)) = len_df d \<and>
   (\<forall>c. c \<noteq> ''age_group'' \<longrightarrow> getitem (snd (analyze_demographics d)) c = getitem d c)"
  using demographics_state [of d] by (auto simp: getitem_setitem len_setitem)

lemma temporal_state:
  "snd (analyze_temporal_patterns d) = d \<or>
   (\<exists>h w m. snd (analyze_temporal_patterns d) =
      setitem (setitem (setitem d ''hour'' h) ''day_of_week'' w) ''month'' m)"
proof (cases "getitem d ''timestamp_parsed''")
  case (Inl e)
  then show ?thesis by (simp add: analyze_temporal_patterns_def)
next
  case (Inr col)
  then show ?thesis
    by (cases col) (simp_all add: analyze_temporal_patterns_def Let_def, blast)
qed

lemma temporal_frame:
  "len_df (snd (analyze_temporal_patterns d)) = len_df d \<and>
   (\<forall>c. c \<notin> {''hour'', ''day_of_week'', ''month''} \<longrightarrow>
      getitem (snd (analyze_temporal_patterns d)) c = getitem d c)"
  using temporal_state [of d] by (auto simp: getitem_setitem len_setitem)

lemma generate_report_state:
  "snd (generate_report rnd pearson d) = d \<or>
   snd (generate_report rnd pearson d) = snd (analyze_demographics d) \<or>
   snd (generate_report rnd pearson d) =
     snd (analyze_temporal_patterns (snd (analyze_demographics d)))"
proof (cases "analyze_basic_statistics d")
  case (Inl e)
  then show ?thesis by (simp add: generate_report_def)
next
  case stats: (Inr st)
  obtain ls r1 d1 where ad: "analyze_demographics d = ((ls, r1), d1)"
    by (cases "analyze_demographics d") auto
  show ?thesis
  proof (cases r1)
    case (Some e)
    with stats ad show ?thesis by (simp add: generate_report_def)
  next
    case demo: None
    show ?thesis
    proof (cases "analyze_correlations pearson d1")
      case (Inl e)
      with stats ad demo show ?thesis by (simp add: generate_report_def)
    next
      case cor: (Inr lc)
      obtain r2 d2 where at: "analyze_temporal_patterns d1 = (r2, d2)"
        by (cases "analyze_temporal_patterns d1")
      show ?thesis
      proof (cases r2)
        case (Inl e)
        with stats ad demo cor at show ?thesis
          by (simp add: generate_report_def split: prod.splits)
      next
        case tmp: (Inr tr)
        show ?thesis
        proof (cases "analyze_clustering_features d2")
          case (Inl e)
          with stats ad demo cor at tmp show ?thesis
            by (simp add: generate_report_def split: prod.splits)
        next
          case (Inr f)
          with stats ad demo cor at tmp show ?thesis
            by (simp add: generate_report_def split: prod.splits)
        qed
      qed
    qed
  qed
qed

lemma generate_report_frame:
  "len_df (snd (generate_report rnd pearson d)) = len_df d \<and>
   (\<forall>c. c \<notin> set reporter_columns \<longrightarrow>
      getitem (snd (generate_report rnd pearson d)) c = getitem d c)"
proof -
  let ?d1 = "snd (analyze_demographics d)"
  let ?d2 = "snd (analyze_temporal_patterns ?d1)"
  have 1: "len_df ?d1 = len_df d" "\<And>c. c \<notin> set reporter_columns \<Longrightarrow> getitem ?d1 c = getitem d c"
    using demographics_frame [of d] by (simp_all add: reporter_columns_def)
  have 2: "len_df ?d2 = len_df d" "\<And>c. c \<notin> set reporter_columns \<Longrightarrow> getitem ?d2 c = getitem d c"
    using temporal_frame [of ?d1] 1 by (simp_all add: reporter_columns_def)
  from generate_report_state [of rnd pearson d] show ?thesis
    using 1 2 by (elim disjE) simp_all
qed

lemma input_not_reporter: "c \<in> set input_columns \<Longrightarrow> c \<notin> set reporter_columns"
  by (auto simp: input_columns_def reporter_columns_def)

text \<open>
  C10. Whatever the outcome of a reporter or of the full report, the table it leaves
  behind has the ten input columns userId, timestamp, symptoms, severity, sleep, stress,
  exercise, age, gender and medical_history unchanged; the full report changes no column
  other than age_group, hour, day_of_week and month, and keeps the number of records.
\<close>

theorem reporters_preserve_input_columns:
  "(\<forall>c \<in> set input_columns.
      getitem (snd (analyze_demographics d)) c = getitem d c \<and>
      getitem (snd (analyze_temporal_patterns d)) c = getitem d c \<and>
      getitem (snd (generate_report rnd pearson d)) c = getitem d c) \<and>
   (\<forall>c. c \<notin> set reporter_columns \<longrightarrow>
      getitem (snd (generate_report rnd pearson d)) c = getitem d c) \<and>
   len_df (snd (generate_report rnd pearson d)) = len_df d"
proof -
  have "getitem (snd (analyze_demographics d)) c = getitem d c \<and>
        getitem (snd (analyze_temporal_patterns d)) c = getitem d c \<and>
        getitem (snd (generate_report rnd pearson d)) c = getitem d c"
    if "c \<in> set input_columns" for c
  proof -
    have n: "c \<notin> set reporter_columns" using that by (rule input_not_reporter)
    then have "c \<noteq> ''age_group''" and "c \<notin> {''hour'', ''day_of_week'', ''month''}"
      by (simp_all add: reporter_columns_def)
    then show ?thesis
      using demographics_frame [of d] temporal_frame [of d] generate_report_frame [of rnd pearson d] n
      by blast
  qed
  then show ?thesis
    using generate_report_frame [of rnd pearson d] by blast
qed

theorem reporters_preserve_input_columns_witness:
  "''age'' \<in> set input_columns \<and> ''symptoms_parsed'' \<notin> set reporter_columns \<and>
   getitem (snd (generate_report Finite pearson_r sample_loaded)) ''age'' = Inr (NumCol [24, 25, 100]) \<and>
   getitem (snd (analyze_demographics sample_loaded)) ''age'' = Inr (NumCol [24, 25, 100]) \<and>
   getitem (snd (generate_report Finite pearson_r sample_loaded)) ''symptoms_parsed'' =
     Inr (ObjCol [JArr [JNum 1, JNum 2], JArr [], JArr []])"
proof -
  have a: "''age'' \<in> set input_columns" by (simp add: input_columns_def)
  have b: "''symptoms_parsed'' \<notin> set reporter_columns" by (simp add: reporter_columns_def)
  have c: "getitem sample_loaded ''age'' = Inr (NumCol [24, 25, 100])"
    "getitem sample_loaded ''symptoms_parsed'' = Inr (ObjCol [JArr [JNum 1, JNum 2], JArr [], JArr []])"
    by (simp_all add: getitem_def sample_loaded_def)
  show ?thesis
    using a b c reporters_preserve_input_columns [of sample_loaded Finite pearson_r]
    by simp
qed

end
